theory Spec2Isabelle
  imports
    Complex_Main
    "HOL-Library.AList"
    "HOL-Library.Sublist"
    "HOL-Library.Char_ord"
    "HOL-Library.List_Lexorder"
    "HOL-Library.Product_Lexorder"
begin

section \<open>Values and the host's arithmetic\<close>

text \<open>
  A cell of a dataset is a loosely typed JavaScript value: \<open>null\<close>, a number or a
  string; a key that a row does not have reads as \<open>undefined\<close>, which is \<open>None\<close> of
  \<open>field\<close>. A number is a double: a finite one, named by the real it is (the two
  zeros are one value, \<open>Num 0\<close>: the program never divides by a computed zero and
  prints no sign of zero), one of the two infinities, or \<open>NaN\<close>.

  What the program computes with numbers it computes in double arithmetic, which
  rounds, overflows and underflows. No operation on numbers is therefore defined here:
  \<open>+\<close>, \<open>-\<close>, \<open>*\<close>, \<open>/\<close>, \<open>**\<close>, \<open>Math.sqrt\<close> and \<open>Math.round\<close> are the fields of a
  record \<open>host\<close> that every function takes, and a theorem assumes of them only what
  it states. Comparing two numbers is exact and is defined.

  A row, and every object the analysis builds, is an association list in insertion
  order; \<open>AList.update\<close> is the assignment \<open>obj[k] = v\<close> (a key written twice keeps its
  place and takes the later value).
\<close>

datatype jsnum = Num real | PosInf | NegInf | NaN

datatype jsval = JNull | JNumber jsnum | JString string

type_synonym jsobject = "(string \<times> jsval) list"

definition field :: "jsobject \<Rightarrow> string \<Rightarrow> jsval option" where
  "field row col = map_of row col"

text \<open>
  \<open>typeof v === "number" && !isNaN(v)\<close>: the number held, if it is one and not \<open>NaN\<close>;
  an infinity passes.
\<close>

fun validNumber :: "jsval option \<Rightarrow> jsnum option" where
  "validNumber (Some (JNumber NaN)) = None"
| "validNumber (Some (JNumber n)) = Some n"
| "validNumber _ = None"

text \<open>
  The order of the numbers that are not \<open>NaN\<close>, as a key into a linear order, and the
  same order reversed. For two such numbers \<open>a - b\<close> is negative, zero or positive as
  \<open>a\<close> is below, equal to or above \<open>b\<close> (it is \<open>NaN\<close> for two equal infinities, which
  a sort takes as zero), so the comparator \<open>(a, b) => a - b\<close> sorts by \<open>ascKey\<close> and
  \<open>(a, b) => b - a\<close> by \<open>descKey\<close>; \<open>Array.prototype.sort\<close> is stable. \<open>numLe\<close> is
  \<open>a <= b\<close>.
\<close>

fun ascKey :: "jsnum \<Rightarrow> int \<times> real" where
  "ascKey NegInf = (- 1, 0)"
| "ascKey (Num x) = (0, x)"
| "ascKey PosInf = (1, 0)"
| "ascKey NaN = (2, 0)"

fun descKey :: "jsnum \<Rightarrow> int \<times> real" where
  "descKey PosInf = (- 1, 0)"
| "descKey (Num x) = (0, - x)"
| "descKey NegInf = (1, 0)"
| "descKey NaN = (2, 0)"

definition numLe :: "jsnum \<Rightarrow> jsnum \<Rightarrow> bool" where
  "numLe a b = (a \<noteq> NaN \<and> b \<noteq> NaN \<and> ascKey a \<le> ascKey b)"

text \<open>
  \<open>String(v)\<close>. The decimal text of a finite number is the host's business
  (\<open>Number.prototype.toString\<close>); it is the parameter \<open>ns\<close> throughout.
\<close>

fun numText :: "(real \<Rightarrow> string) \<Rightarrow> jsnum \<Rightarrow> string" where
  "numText ns (Num x) = ns x"
| "numText ns PosInf = ''Infinity''"
| "numText ns NegInf = ''-Infinity''"
| "numText ns NaN = ''NaN''"

fun jsString :: "(real \<Rightarrow> string) \<Rightarrow> jsval option \<Rightarrow> string" where
  "jsString ns None = ''undefined''"
| "jsString ns (Some JNull) = ''null''"
| "jsString ns (Some (JNumber n)) = numText ns n"
| "jsString ns (Some (JString s)) = s"

text \<open>\<open>String(v ?? dflt)\<close>: only \<open>null\<close> and \<open>undefined\<close> take the default.\<close>

fun stringOr :: "(real \<Rightarrow> string) \<Rightarrow> string \<Rightarrow> jsval option \<Rightarrow> string" where
  "stringOr ns dflt None = dflt"
| "stringOr ns dflt (Some JNull) = dflt"
| "stringOr ns dflt v = jsString ns v"

text \<open>
  The arithmetic of the host. \<open>hSortNaN valueCol rows\<close> is what
  \<open>rows.sort((a, b) => b[valueCol] - a[valueCol])\<close> returns when one of the values is
  \<open>NaN\<close>: the comparator is then not consistent and the order is the implementation's.
\<close>

record host =
  hAdd :: "jsnum \<Rightarrow> jsnum \<Rightarrow> jsnum"
  hSub :: "jsnum \<Rightarrow> jsnum \<Rightarrow> jsnum"
  hMul :: "jsnum \<Rightarrow> jsnum \<Rightarrow> jsnum"
  hDiv :: "jsnum \<Rightarrow> jsnum \<Rightarrow> jsnum"
  hPow :: "jsnum \<Rightarrow> jsnum \<Rightarrow> jsnum"
  hSqrt :: "jsnum \<Rightarrow> jsnum"
  hRound :: "jsnum \<Rightarrow> jsnum"
  hSortNaN :: "string \<Rightarrow> jsobject list \<Rightarrow> jsobject list"

text \<open>\<open>Math.round(x * 100) / 100\<close> and \<open>Math.round(x * 1000) / 1000\<close>.\<close>

definition round2 :: "host \<Rightarrow> jsnum \<Rightarrow> jsnum" where
  "round2 H x = hDiv H (hRound H (hMul H x (Num 100))) (Num 100)"

definition round3 :: "host \<Rightarrow> jsnum \<Rightarrow> jsnum" where
  "round3 H x = hDiv H (hRound H (hMul H x (Num 1000))) (Num 1000)"

text \<open>\<open>xs.reduce((s, v) => s + v, 0)\<close>.\<close>

definition reduceSum :: "host \<Rightarrow> jsnum list \<Rightarrow> jsnum" where
  "reduceSum H xs = foldl (\<lambda>s v. hAdd H s v) (Num 0) xs"

section \<open>Column statistics\<close>

text \<open>
  The numeric fields \<open>computeNumericStats\<close> returns; \<open>min\<close>, \<open>max\<close> and \<open>sum\<close> are
  names of HOL, so these three carry a \<open>V\<close>.
\<close>

record NumericStats =
  minV :: jsnum
  maxV :: jsnum
  mean :: jsnum
  median :: jsnum
  sumV :: jsnum
  stdDev :: jsnum

text \<open>The valid numbers of a column, in row order.\<close>

definition numericValues :: "jsobject list \<Rightarrow> string \<Rightarrow> jsnum list" where
  "numericValues data column = List.map_filter (\<lambda>row. validNumber (field row column)) data"

text \<open>\<open>[...values].sort((a, b) => a - b)\<close>, on numbers none of which is \<open>NaN\<close>.\<close>

definition sortNumbers :: "jsnum list \<Rightarrow> jsnum list" where
  "sortNumbers values = sort_key ascKey values"

text \<open>
  \<open>computeNumericStats\<close>; \<open>None\<close> is the empty object it returns when the column has
  no valid number. \<open>rawMedian\<close> and \<open>rawStdDev\<close> are the values before rounding.
\<close>

definition rawMedian :: "host \<Rightarrow> jsnum list \<Rightarrow> jsnum" where
  "rawMedian H values =
     (let sorted = sortNumbers values; n = length values
      in if n mod 2 = 0
         then hDiv H (hAdd H (sorted ! (n div 2 - 1)) (sorted ! (n div 2))) (Num 2)
         else sorted ! (n div 2))"

definition rawVariance :: "host \<Rightarrow> jsnum list \<Rightarrow> jsnum" where
  "rawVariance H values =
     (let mean = hDiv H (reduceSum H values) (Num (real (length values)))
      in hDiv H (foldl (\<lambda>s v. hAdd H s (hPow H (hSub H v mean) (Num 2))) (Num 0) values)
           (Num (real (length values))))"

definition rawStdDev :: "host \<Rightarrow> jsnum list \<Rightarrow> jsnum" where
  "rawStdDev H values = hSqrt H (rawVariance H values)"

definition numericStatsOf :: "host \<Rightarrow> jsnum list \<Rightarrow> NumericStats option" where
  "numericStatsOf H values =
     (if length values = 0 then None
      else
        let sorted = sortNumbers values;
            sum = reduceSum H values;
            mean = hDiv H sum (Num (real (length values)))
        in Some \<lparr> minV = sorted ! 0,
                  maxV = sorted ! (length sorted - 1),
                  mean = round2 H mean,
                  median = round2 H (rawMedian H values),
                  sumV = round2 H sum,
                  stdDev = round2 H (rawStdDev H values) \<rparr>)"

definition computeNumericStats :: "host \<Rightarrow> jsobject list \<Rightarrow> string \<Rightarrow> NumericStats option" where
  "computeNumericStats H data column = numericStatsOf H (numericValues data column)"

text \<open>
  \<open>computeCategoricalStats\<close>. The \<open>Map\<close> of counts keeps its keys in insertion
  order; \<open>counts.set\<close> on a key already there keeps the key's place. The comparator
  \<open>b[1] - a[1]\<close> of the (stable) sort orders by count, largest first.
\<close>

definition countStep ::
  "(real \<Rightarrow> string) \<Rightarrow> string \<Rightarrow> (string \<times> nat) list \<Rightarrow> jsobject \<Rightarrow> (string \<times> nat) list" where
  "countStep ns column counts row =
     (let val = stringOr ns ''null'' (field row column)
      in AList.update val ((case map_of counts val of None \<Rightarrow> 0 | Some c \<Rightarrow> c) + 1) counts)"

definition computeCategoricalStats ::
  "(real \<Rightarrow> string) \<Rightarrow> jsobject list \<Rightarrow> string \<Rightarrow> (string \<times> nat) list" where
  "computeCategoricalStats ns data column =
     take 10 (sort_key (\<lambda>e. - int (snd e)) (foldl (countStep ns column) [] data))"

section \<open>Aggregation by group\<close>

datatype aggOp = OpSum | OpMean | OpCount

definition groupStep ::
  "(real \<Rightarrow> string) \<Rightarrow> string \<Rightarrow> string \<Rightarrow> (string \<times> jsnum list) list \<Rightarrow> jsobject
     \<Rightarrow> (string \<times> jsnum list) list" where
  "groupStep ns groupCol valueCol groups row =
     (let key = stringOr ns ''Unknown'' (field row groupCol);
          groups1 = (if map_of groups key = None then groups @ [(key, [])] else groups)
      in case validNumber (field row valueCol) of
           Some val \<Rightarrow> AList.map_entry key (\<lambda>values. values @ [val]) groups1
         | None \<Rightarrow> groups1)"

definition reduceGroup :: "host \<Rightarrow> aggOp \<Rightarrow> jsnum list \<Rightarrow> jsnum" where
  "reduceGroup H operation values =
     (case operation of
        OpSum \<Rightarrow> reduceSum H values
      | OpMean \<Rightarrow> (if length values > 0
                   then hDiv H (reduceSum H values) (Num (real (length values)))
                   else Num 0)
      | OpCount \<Rightarrow> Num (real (length values)))"

text \<open>The object \<open>{ [groupCol]: name, [valueCol]: rounded }\<close>.\<close>

definition groupRow :: "string \<Rightarrow> string \<Rightarrow> string \<Rightarrow> jsnum \<Rightarrow> jsobject" where
  "groupRow groupCol valueCol name rounded =
     AList.update valueCol (JNumber rounded) [(groupCol, JString name)]"

text \<open>
  \<open>row[col] as number\<close>, read by the sort's comparator: every row the aggregation
  builds holds a number there, so the last case is never reached.
\<close>

definition numberAt :: "jsobject \<Rightarrow> string \<Rightarrow> jsnum" where
  "numberAt row col = (case field row col of Some (JNumber n) \<Rightarrow> n | _ \<Rightarrow> NaN)"

text \<open>\<open>rows.sort((a, b) => b[valueCol] - a[valueCol])\<close>.\<close>

definition sortRowsDesc :: "host \<Rightarrow> string \<Rightarrow> jsobject list \<Rightarrow> jsobject list" where
  "sortRowsDesc H valueCol rs =
     (if list_ex (\<lambda>r. numberAt r valueCol = NaN) rs then hSortNaN H valueCol rs
      else sort_key (\<lambda>r. descKey (numberAt r valueCol)) rs)"

definition aggregateByGroup ::
  "host \<Rightarrow> (real \<Rightarrow> string) \<Rightarrow> jsobject list \<Rightarrow> string \<Rightarrow> string \<Rightarrow> aggOp \<Rightarrow> jsobject list" where
  "aggregateByGroup H ns data groupCol valueCol operation =
     sortRowsDesc H valueCol
       (map (\<lambda>(name, values).
               groupRow groupCol valueCol name (round2 H (reduceGroup H operation values)))
            (foldl (groupStep ns groupCol valueCol) [] data))"

section \<open>Pearson correlation\<close>

text \<open>
  \<open>xs[i]\<close> as an operand of arithmetic: past the end of the array it is \<open>undefined\<close>,
  which arithmetic takes as \<open>NaN\<close>.
\<close>

definition elementAt :: "jsnum list \<Rightarrow> nat \<Rightarrow> jsnum" where
  "elementAt xs i = (if i < length xs then xs ! i else NaN)"

definition pearsonCorrelation :: "host \<Rightarrow> jsnum list \<Rightarrow> jsnum list \<Rightarrow> jsnum" where
  "pearsonCorrelation H x y =
     (let n = length x in
      if n < 3 then Num 0
      else
        let meanX = hDiv H (reduceSum H x) (Num (real n));
            meanY = hDiv H (reduceSum H y) (Num (real n));
            (numerator, denomX, denomY) =
               foldl (\<lambda>(numerator, denomX, denomY) i.
                        let dx = hSub H (elementAt x i) meanX;
                            dy = hSub H (elementAt y i) meanY
                        in (hAdd H numerator (hMul H dx dy),
                            hAdd H denomX (hMul H dx dx),
                            hAdd H denomY (hMul H dy dy)))
                     (Num 0, Num 0, Num 0) [0..<n];
            denom = hSqrt H (hMul H denomX denomY)
        in if denom = Num 0 then Num 0 else round3 H (hDiv H numerator denom))"

section \<open>The dataset summary\<close>

datatype coltype = TString | TNumber | TDate

text \<open>
  The six numeric fields of \<open>ColumnStats\<close> are optional in the source and are set
  together by the spread \<open>{ ...base, ...numStats }\<close>: they are one optional group here.
  The field \<open>type\<close> of \<open>ColumnStats\<close> is \<open>ctype\<close> and the field \<open>data\<close> of
  \<open>AggregationResult\<close> is \<open>rows\<close>. The record fields own the names \<open>columns\<close>,
  \<open>columnTypes\<close>, \<open>numericColumns\<close> and so on, so the functions below call their
  parameters \<open>cols\<close>, \<open>types\<close>, \<open>numCols\<close>, \<open>catCols\<close> and \<open>dateCols\<close>.
\<close>

record ColumnStats =
  column :: string
  ctype :: coltype
  uniqueCount :: nat
  nullCount :: nat
  numeric :: "NumericStats option"
  topValues :: "(string \<times> nat) list option"
  dateRange :: "(string \<times> string) option"

record AggregationResult =
  description :: string
  groupBy :: string
  metric :: string
  operation :: string
  rows :: "jsobject list"

record CorrelationResult =
  xColumn :: string
  yColumn :: string
  correlation :: jsnum
  scatterData :: "(jsnum \<times> jsnum) list"

record DataSummary =
  rowCount :: nat
  columnCount :: nat
  columns :: "string list"
  columnTypes :: "string \<rightharpoonup> coltype"
  columnStats :: "ColumnStats list"
  categoricalColumns :: "string list"
  numericColumns :: "string list"
  dateColumns :: "string list"
  precomputedAggregations :: "AggregationResult list"
  correlations :: "CorrelationResult list"

text \<open>\<open>v == null || v === ""\<close>.\<close>

fun isNullOrEmpty :: "jsval option \<Rightarrow> bool" where
  "isNullOrEmpty None = True"
| "isNullOrEmpty (Some JNull) = True"
| "isNullOrEmpty (Some (JString s)) = (s = [])"
| "isNullOrEmpty (Some (JNumber n)) = False"

text \<open>\<open>v != null\<close>, keeping the value.\<close>

fun nonNull :: "jsval option \<Rightarrow> jsval option" where
  "nonNull None = None"
| "nonNull (Some JNull) = None"
| "nonNull (Some v) = Some v"

text \<open>
  One element of \<open>columnStats\<close>. The size of the \<open>Set\<close> of a column's values counts
  \<open>undefined\<close>, \<open>null\<close> and \<open>NaN\<close> once each. The default \<open>sort()\<close> of the date
  branch compares the values' string forms by code unit.
\<close>

definition columnStat ::
  "host \<Rightarrow> (real \<Rightarrow> string) \<Rightarrow> jsobject list \<Rightarrow> (string \<rightharpoonup> coltype) \<Rightarrow> string \<Rightarrow> ColumnStats" where
  "columnStat H ns data types col =
     (let type = (case types col of Some t \<Rightarrow> t | None \<Rightarrow> TString);
          uniqueValues = remdups (map (\<lambda>row. field row col) data);
          nullCount = length (filter (\<lambda>row. isNullOrEmpty (field row col)) data);
          base = \<lparr> column = col, ctype = type, uniqueCount = length uniqueValues,
                   nullCount = nullCount, numeric = None, topValues = None, dateRange = None \<rparr>
      in case type of
           TNumber \<Rightarrow> base \<lparr> numeric := computeNumericStats H data col \<rparr>
         | TString \<Rightarrow> base \<lparr> topValues := Some (computeCategoricalStats ns data col) \<rparr>
         | TDate \<Rightarrow>
             (let dates = sort_key (\<lambda>v. jsString ns (Some v))
                            (List.map_filter (\<lambda>row. nonNull (field row col)) data)
              in base \<lparr> dateRange :=
                          (if length dates > 0
                           then Some (jsString ns (Some (dates ! 0)),
                                      jsString ns (Some (dates ! (length dates - 1))))
                           else None) \<rparr>))"

text \<open>The first loop: categorical by numeric columns, a sum and a mean for each pair.\<close>

definition categoricalAggregations ::
  "host \<Rightarrow> (real \<Rightarrow> string) \<Rightarrow> jsobject list \<Rightarrow> string list \<Rightarrow> string list
     \<Rightarrow> AggregationResult list" where
  "categoricalAggregations H ns data catCols numCols =
     concat (map (\<lambda>catCol.
       if length (remdups (map (\<lambda>r. field r catCol) data)) > 20 then []
       else concat (map (\<lambda>numCol.
              [\<lparr> description = ''Total '' @ numCol @ '' by '' @ catCol,
                 groupBy = catCol, metric = numCol, operation = ''sum'',
                 rows = aggregateByGroup H ns data catCol numCol OpSum \<rparr>,
               \<lparr> description = ''Average '' @ numCol @ '' by '' @ catCol,
                 groupBy = catCol, metric = numCol, operation = ''mean'',
                 rows = aggregateByGroup H ns data catCol numCol OpMean \<rparr>])
            (take 6 numCols)))
       (take 4 catCols))"

text \<open>
  The second loop: the time series. \<open>localeCompare\<close> is the host's collation; it is
  taken as the comparison of a collation key \<open>ck\<close> into a linear order (the identity
  on strings would be the plain lexicographic order by code unit).
\<close>

definition dateAggregations ::
  "host \<Rightarrow> (real \<Rightarrow> string) \<Rightarrow> (string \<Rightarrow> 'k::linorder) \<Rightarrow> jsobject list \<Rightarrow> string list
     \<Rightarrow> string list \<Rightarrow> AggregationResult list" where
  "dateAggregations H ns ck data dateCols numCols =
     concat (map (\<lambda>dateCol.
       map (\<lambda>numCol.
              \<lparr> description = numCol @ '' over time (by '' @ dateCol @ '')'',
                groupBy = dateCol, metric = numCol, operation = ''sum'',
                rows = sort_key (\<lambda>a. ck (jsString ns (field a dateCol)))
                         (aggregateByGroup H ns data dateCol numCol OpSum) \<rparr>)
           (take 4 numCols))
       (take 2 dateCols))"

text \<open>The rows in which both columns hold a valid number, as \<open>(x, y)\<close> pairs.\<close>

definition pairedSamples :: "jsobject list \<Rightarrow> string \<Rightarrow> string \<Rightarrow> (jsnum \<times> jsnum) list" where
  "pairedSamples data xCol yCol =
     List.map_filter (\<lambda>row.
        case validNumber (field row xCol) of
          None \<Rightarrow> None
        | Some x \<Rightarrow> (case validNumber (field row yCol) of None \<Rightarrow> None | Some y \<Rightarrow> Some (x, y)))
       data"

definition correlationsOf :: "host \<Rightarrow> jsobject list \<Rightarrow> string list \<Rightarrow> CorrelationResult list" where
  "correlationsOf H data numCols =
     concat (map (\<lambda>i.
       concat (map (\<lambda>j.
         let xCol = numCols ! i;
             yCol = numCols ! j;
             paired = pairedSamples data xCol yCol
         in if length paired \<ge> 3
            then [\<lparr> xColumn = xCol, yColumn = yCol,
                     correlation = pearsonCorrelation H (map fst paired) (map snd paired),
                     scatterData = take 100 paired \<rparr>]
            else [])
         [i + 1 ..< min (length numCols) 5]))
       [0 ..< min (length numCols) 5])"

definition analyzeDataset ::
  "host \<Rightarrow> (real \<Rightarrow> string) \<Rightarrow> (string \<Rightarrow> 'k::linorder) \<Rightarrow> jsobject list \<Rightarrow> string list
     \<Rightarrow> (string \<rightharpoonup> coltype) \<Rightarrow> DataSummary" where
  "analyzeDataset H ns ck data cols types =
     (let numCols = filter (\<lambda>c. types c = Some TNumber) cols;
          catCols = filter (\<lambda>c. types c = Some TString) cols;
          dateCols = filter (\<lambda>c. types c = Some TDate) cols
      in \<lparr> rowCount = length data,
           columnCount = length cols,
           columns = cols,
           columnTypes = types,
           columnStats = map (columnStat H ns data types) cols,
           categoricalColumns = catCols,
           numericColumns = numCols,
           dateColumns = dateCols,
           precomputedAggregations =
             categoricalAggregations H ns data catCols numCols
             @ dateAggregations H ns ck data dateCols numCols,
           correlations = correlationsOf H data numCols \<rparr>)"

section \<open>The dataset summary of an array that may hold null rows\<close>

text \<open>
  The functions above take rows that are records, as their TypeScript types say. The
  array a caller passes can also hold \<open>null\<close> (or \<open>undefined\<close>) in the place of a row,
  and reading a property of \<open>null\<close> raises a \<open>TypeError\<close>, the one way in which this
  code can raise. The functions of this section are the same functions on such an
  array, \<open>None\<close> standing for a \<open>null\<close> row, with the error as a value: \<open>Inl\<close> is the
  exception, which ends the computation where it is raised.
\<close>

datatype jserror = TypeError

definition bindE :: "jserror + 'a \<Rightarrow> ('a \<Rightarrow> jserror + 'b) \<Rightarrow> jserror + 'b" where
  "bindE m f = (case m of Inl e \<Rightarrow> Inl e | Inr x \<Rightarrow> f x)"

text \<open>
  \<open>data.map(row => ...)\<close> and \<open>data.filter(row => ...)\<close> with a callback that starts by
  reading a property of the row; \<open>for (const row of data)\<close> with such a body and an
  accumulator; and a loop over computations, of which the first that raises ends the
  loop.
\<close>

fun mapRows :: "(jsobject \<Rightarrow> 'a) \<Rightarrow> jsobject option list \<Rightarrow> jserror + 'a list" where
  "mapRows f [] = Inr []"
| "mapRows f (None # rest) = Inl TypeError"
| "mapRows f (Some row # rest) = bindE (mapRows f rest) (\<lambda>ys. Inr (f row # ys))"

fun foldRows :: "('s \<Rightarrow> jsobject \<Rightarrow> 's) \<Rightarrow> 's \<Rightarrow> jsobject option list \<Rightarrow> jserror + 's" where
  "foldRows f s [] = Inr s"
| "foldRows f s (None # rest) = Inl TypeError"
| "foldRows f s (Some row # rest) = foldRows f (f s row) rest"

fun sequenceE :: "(jserror + 'a) list \<Rightarrow> jserror + 'a list" where
  "sequenceE [] = Inr []"
| "sequenceE (m # ms) = bindE m (\<lambda>x. bindE (sequenceE ms) (\<lambda>xs. Inr (x # xs)))"

definition computeNumericStatsRaw ::
  "host \<Rightarrow> jsobject option list \<Rightarrow> string \<Rightarrow> jserror + NumericStats option" where
  "computeNumericStatsRaw H rawData col =
     bindE (mapRows (\<lambda>row. field row col) rawData)
       (\<lambda>cells. Inr (numericStatsOf H (List.map_filter validNumber cells)))"

definition computeCategoricalStatsRaw ::
  "(real \<Rightarrow> string) \<Rightarrow> jsobject option list \<Rightarrow> string \<Rightarrow> jserror + (string \<times> nat) list" where
  "computeCategoricalStatsRaw ns rawData col =
     bindE (foldRows (countStep ns col) [] rawData)
       (\<lambda>counts. Inr (take 10 (sort_key (\<lambda>e. - int (snd e)) counts)))"

definition aggregateByGroupRaw ::
  "host \<Rightarrow> (real \<Rightarrow> string) \<Rightarrow> jsobject option list \<Rightarrow> string \<Rightarrow> string \<Rightarrow> aggOp
     \<Rightarrow> jserror + jsobject list" where
  "aggregateByGroupRaw H ns rawData groupCol valueCol op =
     bindE (foldRows (groupStep ns groupCol valueCol) [] rawData)
       (\<lambda>groups.
          Inr (sortRowsDesc H valueCol
                 (map (\<lambda>(name, values).
                         groupRow groupCol valueCol name (round2 H (reduceGroup H op values)))
                      groups)))"

definition columnStatRaw ::
  "host \<Rightarrow> (real \<Rightarrow> string) \<Rightarrow> jsobject option list \<Rightarrow> (string \<rightharpoonup> coltype) \<Rightarrow> string
     \<Rightarrow> jserror + ColumnStats" where
  "columnStatRaw H ns rawData types col =
     (let type = (case types col of Some t \<Rightarrow> t | None \<Rightarrow> TString)
      in bindE (mapRows (\<lambda>row. field row col) rawData) (\<lambda>cells.
         bindE (mapRows (\<lambda>row. isNullOrEmpty (field row col)) rawData) (\<lambda>nulls.
           let base = \<lparr> column = col, ctype = type, uniqueCount = length (remdups cells),
                        nullCount = length (filter (\<lambda>b. b) nulls), numeric = None,
                        topValues = None, dateRange = None \<rparr>
           in case type of
                TNumber \<Rightarrow>
                  bindE (computeNumericStatsRaw H rawData col)
                    (\<lambda>numStats. Inr (base \<lparr> numeric := numStats \<rparr>))
              | TString \<Rightarrow>
                  bindE (computeCategoricalStatsRaw ns rawData col)
                    (\<lambda>top. Inr (base \<lparr> topValues := Some top \<rparr>))
              | TDate \<Rightarrow>
                  bindE (mapRows (\<lambda>row. field row col) rawData) (\<lambda>values.
                    let dates = sort_key (\<lambda>v. jsString ns (Some v)) (List.map_filter nonNull values)
                    in Inr (base \<lparr> dateRange :=
                                     (if length dates > 0
                                      then Some (jsString ns (Some (dates ! 0)),
                                                 jsString ns (Some (dates ! (length dates - 1))))
                                      else None) \<rparr>)))))"

definition categoricalAggregationsRaw ::
  "host \<Rightarrow> (real \<Rightarrow> string) \<Rightarrow> jsobject option list \<Rightarrow> string list \<Rightarrow> string list
     \<Rightarrow> jserror + AggregationResult list" where
  "categoricalAggregationsRaw H ns rawData catCols numCols =
     bindE (sequenceE (map (\<lambda>catCol.
         bindE (mapRows (\<lambda>r. field r catCol) rawData) (\<lambda>cats.
           if length (remdups cats) > 20 then Inr []
           else bindE (sequenceE (map (\<lambda>numCol.
                    bindE (aggregateByGroupRaw H ns rawData catCol numCol OpSum) (\<lambda>sumData.
                    bindE (aggregateByGroupRaw H ns rawData catCol numCol OpMean) (\<lambda>meanData.
                      Inr [\<lparr> description = ''Total '' @ numCol @ '' by '' @ catCol,
                             groupBy = catCol, metric = numCol, operation = ''sum'',
                             rows = sumData \<rparr>,
                           \<lparr> description = ''Average '' @ numCol @ '' by '' @ catCol,
                             groupBy = catCol, metric = numCol, operation = ''mean'',
                             rows = meanData \<rparr>])))
                  (take 6 numCols)))
                (\<lambda>parts. Inr (concat parts))))
       (take 4 catCols)))
       (\<lambda>parts. Inr (concat parts))"

definition dateAggregationsRaw ::
  "host \<Rightarrow> (real \<Rightarrow> string) \<Rightarrow> (string \<Rightarrow> 'k::linorder) \<Rightarrow> jsobject option list \<Rightarrow> string list
     \<Rightarrow> string list \<Rightarrow> jserror + AggregationResult list" where
  "dateAggregationsRaw H ns ck rawData dateCols numCols =
     bindE (sequenceE (map (\<lambda>dateCol.
         sequenceE (map (\<lambda>numCol.
             bindE (aggregateByGroupRaw H ns rawData dateCol numCol OpSum) (\<lambda>sumData.
               Inr \<lparr> description = numCol @ '' over time (by '' @ dateCol @ '')'',
                     groupBy = dateCol, metric = numCol, operation = ''sum'',
                     rows = sort_key (\<lambda>a. ck (jsString ns (field a dateCol))) sumData \<rparr>))
           (take 4 numCols)))
       (take 2 dateCols)))
       (\<lambda>parts. Inr (concat parts))"

definition pairedSamplesRaw ::
  "jsobject option list \<Rightarrow> string \<Rightarrow> string \<Rightarrow> jserror + (jsnum \<times> jsnum) list" where
  "pairedSamplesRaw rawData xCol yCol =
     bindE (mapRows (\<lambda>row.
                case validNumber (field row xCol) of
                  None \<Rightarrow> None
                | Some x \<Rightarrow> (case validNumber (field row yCol) of None \<Rightarrow> None | Some y \<Rightarrow> Some (x, y)))
              rawData)
       (\<lambda>pairs. Inr (List.map_filter (\<lambda>p. p) pairs))"

definition correlationsRaw ::
  "host \<Rightarrow> jsobject option list \<Rightarrow> string list \<Rightarrow> jserror + CorrelationResult list" where
  "correlationsRaw H rawData numCols =
     bindE (sequenceE (map (\<lambda>i.
         bindE (sequenceE (map (\<lambda>j.
             let xCol = numCols ! i;
                 yCol = numCols ! j
             in bindE (pairedSamplesRaw rawData xCol yCol) (\<lambda>paired.
                  if length paired \<ge> 3
                  then Inr [\<lparr> xColumn = xCol, yColumn = yCol,
                              correlation = pearsonCorrelation H (map fst paired) (map snd paired),
                              scatterData = take 100 paired \<rparr>]
                  else Inr []))
           [i + 1 ..< min (length numCols) 5]))
           (\<lambda>parts. Inr (concat parts)))
       [0 ..< min (length numCols) 5]))
       (\<lambda>parts. Inr (concat parts))"

definition analyzeDatasetRaw ::
  "host \<Rightarrow> (real \<Rightarrow> string) \<Rightarrow> (string \<Rightarrow> 'k::linorder) \<Rightarrow> jsobject option list \<Rightarrow> string list
     \<Rightarrow> (string \<rightharpoonup> coltype) \<Rightarrow> jserror + DataSummary" where
  "analyzeDatasetRaw H ns ck rawData cols types =
     (let numCols = filter (\<lambda>c. types c = Some TNumber) cols;
          catCols = filter (\<lambda>c. types c = Some TString) cols;
          dateCols = filter (\<lambda>c. types c = Some TDate) cols
      in bindE (sequenceE (map (columnStatRaw H ns rawData types) cols)) (\<lambda>stats.
         bindE (categoricalAggregationsRaw H ns rawData catCols numCols) (\<lambda>categorical.
         bindE (dateAggregationsRaw H ns ck rawData dateCols numCols) (\<lambda>dated.
         bindE (correlationsRaw H rawData numCols) (\<lambda>corr.
           Inr \<lparr> rowCount = length rawData,
                 columnCount = length cols,
                 columns = cols,
                 columnTypes = types,
                 columnStats = stats,
                 categoricalColumns = catCols,
                 numericColumns = numCols,
                 dateColumns = dateCols,
                 precomputedAggregations = categorical @ dated,
                 correlations = corr \<rparr>)))))"

section \<open>Matching a query against the aggregations\<close>

text \<open>
  A string is the list of its code units. Two built-ins of the host are parameters:
  \<open>lower\<close> is \<open>String.prototype.toLowerCase\<close> and \<open>space c\<close> says that the regular
  expression \<open>\s\<close> matches the code unit \<open>c\<close>.
\<close>

text \<open>\<open>s.includes(t)\<close>: \<open>t\<close> occurs in \<open>s\<close> as a contiguous substring.\<close>

definition stringIncludes :: "string \<Rightarrow> string \<Rightarrow> bool" where
  "stringIncludes s t = sublist t s"

text \<open>
  \<open>s.split(/\s+/)\<close>: a run of white space separates two words; white space at either
  end of the string leaves an empty word there, and the empty string is one empty word.
\<close>

fun splitWhitespace :: "(char \<Rightarrow> bool) \<Rightarrow> string \<Rightarrow> string list" where
  "splitWhitespace space [] = [[]]"
| "splitWhitespace space [c] = (if space c then [[], []] else [[c]])"
| "splitWhitespace space (c # d # cs) =
     (if space c then
        (if space d then splitWhitespace space (d # cs) else [] # splitWhitespace space (d # cs))
      else (case splitWhitespace space (d # cs) of
              w # ws \<Rightarrow> (c # w) # ws
            | [] \<Rightarrow> [[c]]))"

text \<open>The body of the loop over the query's words.\<close>

definition wordScore :: "string \<Rightarrow> string \<Rightarrow> string \<Rightarrow> nat \<Rightarrow> string \<Rightarrow> nat" where
  "wordScore desc groupLower metricLower score word =
     (if length word < 3 then score
      else
        let score1 = (if stringIncludes desc word then score + 1 else score);
            score2 = (if stringIncludes groupLower word then score1 + 2 else score1);
            score3 = (if stringIncludes metricLower word then score2 + 2 else score2)
        in score3)"

text \<open>The score one aggregation gets for the lower-cased query \<open>q\<close>.\<close>

definition aggregationScore ::
  "(string \<Rightarrow> string) \<Rightarrow> (char \<Rightarrow> bool) \<Rightarrow> string \<Rightarrow> AggregationResult \<Rightarrow> nat" where
  "aggregationScore lower space q agg =
     (let desc = lower (description agg);
          groupLower = lower (groupBy agg);
          metricLower = lower (metric agg);
          score1 = (if stringIncludes q groupLower then 3 else 0);
          score2 = (if stringIncludes q metricLower then score1 + 3 else score1);
          words = splitWhitespace space q;
          score3 = foldl (wordScore desc groupLower metricLower) score2 words;
          score4 = (if (stringIncludes q ''total'' \<or> stringIncludes q ''sum'') \<and> operation agg = ''sum''
                    then score3 + 2 else score3);
          score5 = (if (stringIncludes q ''average'' \<or> stringIncludes q ''avg'' \<or> stringIncludes q ''mean'')
                       \<and> operation agg = ''mean''
                    then score4 + 2 else score4)
      in score5)"

definition bestStep ::
  "(string \<Rightarrow> string) \<Rightarrow> (char \<Rightarrow> bool) \<Rightarrow> string \<Rightarrow> nat \<times> AggregationResult option
     \<Rightarrow> AggregationResult \<Rightarrow> nat \<times> AggregationResult option" where
  "bestStep lower space q best agg =
     (let score = aggregationScore lower space q agg
      in if score > fst best then (score, Some agg) else best)"

definition findRelevantAggregation ::
  "(string \<Rightarrow> string) \<Rightarrow> (char \<Rightarrow> bool) \<Rightarrow> DataSummary \<Rightarrow> string \<Rightarrow> AggregationResult option" where
  "findRelevantAggregation lower space summary query =
     (let q = lower query;
          best = foldl (bestStep lower space q) (0, None) (precomputedAggregations summary)
      in if fst best \<ge> 3 then snd best else None)"

section \<open>Inferring the column types of an upload\<close>

text \<open>
  \<open>detectColumnTypes\<close> rests on three built-ins of the host, taken as parameters:
  \<open>toNumber\<close> is \<open>Number(s)\<close> on a string, \<open>trim\<close> is \<open>String.prototype.trim\<close>, and
  \<open>validDate v\<close> says that \<open>new Date(v)\<close> has a time value (\<open>getTime()\<close> is not
  \<open>NaN\<close>). \<open>ns\<close> is the text of a number, as before.
\<close>

text \<open>\<open>v != null && v !== ""\<close>, keeping the value.\<close>

fun nonEmpty :: "jsval option \<Rightarrow> jsval option" where
  "nonEmpty None = None"
| "nonEmpty (Some JNull) = None"
| "nonEmpty (Some (JString s)) = (if s = [] then None else Some (JString s))"
| "nonEmpty (Some (JNumber n)) = Some (JNumber n)"

definition columnSamples :: "jsobject list \<Rightarrow> string \<Rightarrow> jsval list" where
  "columnSamples data col = List.map_filter (\<lambda>row. nonEmpty (field row col)) (take 10 data)"

text \<open>The test of \<open>allNumbers\<close> on one sample.\<close>

fun numericLiteral :: "(string \<Rightarrow> jsnum) \<Rightarrow> (real \<Rightarrow> string) \<Rightarrow> (string \<Rightarrow> string) \<Rightarrow> jsval \<Rightarrow> bool" where
  "numericLiteral toNumber ns trim (JNumber n) = True"
| "numericLiteral toNumber ns trim (JString s) =
     (toNumber s \<noteq> NaN \<and> numText ns (toNumber s) = trim s)"
| "numericLiteral toNumber ns trim JNull = (ns 0 = trim ''null'')"

definition inferType ::
  "(string \<Rightarrow> jsnum) \<Rightarrow> (real \<Rightarrow> string) \<Rightarrow> (string \<Rightarrow> string) \<Rightarrow> (jsval \<Rightarrow> bool)
     \<Rightarrow> jsobject list \<Rightarrow> string \<Rightarrow> coltype" where
  "inferType toNumber ns trim validDate data col =
     (let samples = columnSamples data col
      in if length samples = 0 then TString
         else if list_all (numericLiteral toNumber ns trim) samples then TNumber
         else if list_all validDate samples then TDate
         else TString)"

text \<open>\<open>Object.keys(row)\<close>, up to the order of the keys.\<close>

definition objectKeys :: "jsobject \<Rightarrow> string list" where
  "objectKeys row = map fst row"

definition detectColumnTypes ::
  "(string \<Rightarrow> jsnum) \<Rightarrow> (real \<Rightarrow> string) \<Rightarrow> (string \<Rightarrow> string) \<Rightarrow> (jsval \<Rightarrow> bool)
     \<Rightarrow> jsobject list \<Rightarrow> (string \<rightharpoonup> coltype)" where
  "detectColumnTypes toNumber ns trim validDate data =
     (if length data = 0 then Map.empty
      else foldl (\<lambda>types col. types(col \<mapsto> inferType toNumber ns trim validDate data col))
             Map.empty (objectKeys (data ! 0)))"

text \<open>The column list \<open>addDataset\<close> hands on with the rows: the keys of the first row.\<close>

definition datasetColumns :: "jsobject list \<Rightarrow> string list" where
  "datasetColumns rawData = (if length rawData > 0 then objectKeys (rawData ! 0) else [])"

section \<open>The aggregations as the specification words them\<close>

text \<open>
  These definitions follow the specification's wording, not the loops of the code; the
  theorems below compare the two. \<open>firstSeen\<close> lists the distinct elements of a list
  in the order of their first occurrence.
\<close>

definition firstSeen :: "'a list \<Rightarrow> 'a list" where
  "firstSeen xs = rev (remdups (rev xs))"

text \<open>The string form of a cell of a categorical column.\<close>

definition categoryKey :: "(real \<Rightarrow> string) \<Rightarrow> string \<Rightarrow> jsobject \<Rightarrow> string" where
  "categoryKey ns col row = stringOr ns ''null'' (field row col)"

text \<open>Every distinct key, first seen first, with the number of rows that have it.\<close>

definition frequencyTable :: "(real \<Rightarrow> string) \<Rightarrow> jsobject list \<Rightarrow> string \<Rightarrow> (string \<times> nat) list" where
  "frequencyTable ns data col =
     map (\<lambda>k. (k, length (filter (\<lambda>row. categoryKey ns col row = k) data)))
         (firstSeen (map (categoryKey ns col) data))"

text \<open>The group key of a row, the distinct keys observed, and the numbers of one group.\<close>

definition groupKeyOf :: "(real \<Rightarrow> string) \<Rightarrow> string \<Rightarrow> jsobject \<Rightarrow> string" where
  "groupKeyOf ns groupCol row = stringOr ns ''Unknown'' (field row groupCol)"

definition groupKeys :: "(real \<Rightarrow> string) \<Rightarrow> jsobject list \<Rightarrow> string \<Rightarrow> string list" where
  "groupKeys ns data groupCol = firstSeen (map (groupKeyOf ns groupCol) data)"

definition groupValues ::
  "(real \<Rightarrow> string) \<Rightarrow> jsobject list \<Rightarrow> string \<Rightarrow> string \<Rightarrow> string \<Rightarrow> jsnum list" where
  "groupValues ns data groupCol valueCol key =
     numericValues (filter (\<lambda>row. groupKeyOf ns groupCol row = key) data) valueCol"

text \<open>
  The reduced value of one group: the total of its valid numbers (added up from 0 in
  row order), the total divided by the count (0 for a group without numbers) or the
  count, and that value rounded to two decimals; all in the host's arithmetic.
\<close>

definition groupResult ::
  "host \<Rightarrow> (real \<Rightarrow> string) \<Rightarrow> jsobject list \<Rightarrow> string \<Rightarrow> string \<Rightarrow> aggOp \<Rightarrow> string \<Rightarrow> jsnum" where
  "groupResult H ns data groupCol valueCol op key =
     (let vs = groupValues ns data groupCol valueCol key;
          total = foldl (hAdd H) (Num 0) vs
      in round2 H (case op of
                     OpSum \<Rightarrow> total
                   | OpMean \<Rightarrow> (if vs = [] then Num 0 else hDiv H total (Num (real (length vs))))
                   | OpCount \<Rightarrow> Num (real (length vs))))"

text \<open>
  The score of an aggregation for a lower-cased query: 3 for the group-by name in the
  query, 3 for the metric name, the points of every query word of at least 3
  characters (1 if the description has it, 2 if the group-by name has it, 2 if the
  metric name has it), and 2 for an operation word in the query that fits the
  aggregation's operation.
\<close>

definition wordPoints :: "string \<Rightarrow> string \<Rightarrow> string \<Rightarrow> string \<Rightarrow> nat" where
  "wordPoints desc groupLower metricLower word =
     (if stringIncludes desc word then 1 else 0)
     + (if stringIncludes groupLower word then 2 else 0)
     + (if stringIncludes metricLower word then 2 else 0)"

definition relevanceScore ::
  "(string \<Rightarrow> string) \<Rightarrow> (char \<Rightarrow> bool) \<Rightarrow> string \<Rightarrow> AggregationResult \<Rightarrow> nat" where
  "relevanceScore lower space q agg =
     (if stringIncludes q (lower (groupBy agg)) then 3 else 0)
     + (if stringIncludes q (lower (metric agg)) then 3 else 0)
     + sum_list (map (wordPoints (lower (description agg)) (lower (groupBy agg))
                        (lower (metric agg)))
                     (filter (\<lambda>word. 3 \<le> length word) (splitWhitespace space q)))
     + (if (stringIncludes q ''total'' \<or> stringIncludes q ''sum'') \<and> operation agg = ''sum''
        then 2 else 0)
     + (if (stringIncludes q ''average'' \<or> stringIncludes q ''avg'' \<or> stringIncludes q ''mean'')
           \<and> operation agg = ''mean''
        then 2 else 0)"



section \<open>What the theorems assume of the host\<close>



definition zeroLaws :: "host \<Rightarrow> bool" where
  "zeroLaws H =
     ((\<forall>c. hSub H (Num c) (Num c) = Num 0)
      \<and> hPow H (Num 0) (Num 2) = Num 0
      \<and> hAdd H (Num 0) (Num 0) = Num 0
      \<and> (\<forall>d. 0 < d \<longrightarrow> hDiv H (Num 0) (Num d) = Num 0)
      \<and> hSqrt H (Num 0) = Num 0
      \<and> hMul H (Num 0) (Num 100) = Num 0
      \<and> hRound H (Num 0) = Num 0)"

section \<open>Hosts for the examples\<close>

text \<open>
  \<open>exactHost\<close> computes exactly on finite numbers and follows IEEE 754 on the
  infinities and \<open>NaN\<close>. It stands for the host wherever no operation of an example
  rounds: there double arithmetic gives the same results. The program divides by a
  count, by 2, 100 or 1000 and by a denominator it has tested against 0, so the sign
  of a zero divisor plays no part; it raises to the power 2 only, and \<open>exPow\<close> has no
  other power. \<open>Math.round\<close> rounds a half upwards.
\<close>

fun negate :: "jsnum \<Rightarrow> jsnum" where
  "negate (Num a) = Num (- a)"
| "negate PosInf = NegInf"
| "negate NegInf = PosInf"
| "negate NaN = NaN"

fun exAdd :: "jsnum \<Rightarrow> jsnum \<Rightarrow> jsnum" where
  "exAdd (Num a) (Num b) = Num (a + b)"
| "exAdd NaN b = NaN"
| "exAdd a NaN = NaN"
| "exAdd PosInf NegInf = NaN"
| "exAdd NegInf PosInf = NaN"
| "exAdd PosInf b = PosInf"
| "exAdd NegInf b = NegInf"
| "exAdd a PosInf = PosInf"
| "exAdd a NegInf = NegInf"

fun exMul :: "jsnum \<Rightarrow> jsnum \<Rightarrow> jsnum" where
  "exMul (Num a) (Num b) = Num (a * b)"
| "exMul NaN b = NaN"
| "exMul a NaN = NaN"
| "exMul (Num a) PosInf = (if a = 0 then NaN else if 0 < a then PosInf else NegInf)"
| "exMul (Num a) NegInf = (if a = 0 then NaN else if 0 < a then NegInf else PosInf)"
| "exMul PosInf (Num b) = (if b = 0 then NaN else if 0 < b then PosInf else NegInf)"
| "exMul NegInf (Num b) = (if b = 0 then NaN else if 0 < b then NegInf else PosInf)"
| "exMul PosInf PosInf = PosInf"
| "exMul PosInf NegInf = NegInf"
| "exMul NegInf PosInf = NegInf"
| "exMul NegInf NegInf = PosInf"

fun exDiv :: "jsnum \<Rightarrow> jsnum \<Rightarrow> jsnum" where
  "exDiv (Num a) (Num b) =
     (if b = 0 then (if a = 0 then NaN else if 0 < a then PosInf else NegInf) else Num (a / b))"
| "exDiv NaN b = NaN"
| "exDiv a NaN = NaN"
| "exDiv (Num a) b = Num 0"
| "exDiv PosInf (Num b) = (if 0 \<le> b then PosInf else NegInf)"
| "exDiv NegInf (Num b) = (if 0 \<le> b then NegInf else PosInf)"
| "exDiv a b = NaN"

definition exPow :: "jsnum \<Rightarrow> jsnum \<Rightarrow> jsnum" where
  "exPow a b = (if b = Num 2 then exMul a a else NaN)"

fun exSqrt :: "jsnum \<Rightarrow> jsnum" where
  "exSqrt (Num a) = (if a < 0 then NaN else Num (sqrt a))"
| "exSqrt PosInf = PosInf"
| "exSqrt a = NaN"

fun exRound :: "jsnum \<Rightarrow> jsnum" where
  "exRound (Num a) = Num (of_int \<lfloor>a + 1 / 2\<rfloor>)"
| "exRound a = a"

definition exactHost :: host where
  "exactHost = \<lparr> hAdd = exAdd, hSub = (\<lambda>a b. exAdd a (negate b)), hMul = exMul, hDiv = exDiv,
                 hPow = exPow, hSqrt = exSqrt, hRound = exRound, hSortNaN = (\<lambda>c rs. rs) \<rparr>"




text \<open>
  \<open>String.prototype.toLowerCase\<close> and the class \<open>\s\<close> on ASCII text: the letters A to
  Z go to a to z, and the white space is the space, the tab, the line feed, the
  vertical tab, the form feed and the carriage return.
\<close>

definition asciiLowerChar :: "char \<Rightarrow> char" where
  "asciiLowerChar c =
     (case map_of (zip ''ABCDEFGHIJKLMNOPQRSTUVWXYZ'' ''abcdefghijklmnopqrstuvwxyz'') c of
        Some l \<Rightarrow> l
      | None \<Rightarrow> c)"

definition asciiLower :: "string \<Rightarrow> string" where
  "asciiLower s = map asciiLowerChar s"

definition asciiSpace :: "char \<Rightarrow> bool" where
  "asciiSpace c = (c \<in> set [CHR '' '', CHR 0x09, CHR 0x0A, CHR 0x0B, CHR 0x0C, CHR 0x0D])"

text \<open>A stand-in for the host's number printing where no number is printed.\<close>

definition noNumberText :: "real \<Rightarrow> string" where
  "noNumberText x = ''0''"

section \<open>Example data\<close>

text \<open>The rows of the specification's scenario A.\<close>

definition regionRows :: "jsobject list" where
  "regionRows =
     [[(''region'', JString ''East''), (''revenue'', JNumber (Num 100))],
      [(''region'', JString ''East''), (''revenue'', JNumber (Num 200))],
      [(''region'', JString ''West''), (''revenue'', JNumber (Num 50))]]"

text \<open>Three numeric columns; \<open>c\<close> holds a valid number in one row only.\<close>

definition sampleRows :: "jsobject list" where
  "sampleRows =
     [[(''a'', JNumber (Num 1)), (''b'', JNumber (Num 2)), (''c'', JNumber (Num 5))],
      [(''a'', JNumber (Num 2)), (''b'', JNumber (Num 4)), (''c'', JNumber NaN)],
      [(''a'', JNumber (Num 3)), (''b'', JNumber (Num 6)), (''c'', JNull)]]"

definition sampleTypes :: "string \<rightharpoonup> coltype" where
  "sampleTypes = [''a'' \<mapsto> TNumber, ''b'' \<mapsto> TNumber, ''c'' \<mapsto> TNumber]"

text \<open>The one correlation result these rows have: column \<open>a\<close> against column \<open>b\<close>.\<close>

definition sampleCorrelation :: CorrelationResult where
  "sampleCorrelation =
     \<lparr> xColumn = ''a'', yColumn = ''b'',
       correlation = pearsonCorrelation exactHost [Num 1, Num 2, Num 3] [Num 2, Num 4, Num 6],
       scatterData = [(Num 1, Num 2), (Num 2, Num 4), (Num 3, Num 6)] \<rparr>"

text \<open>
  One uploaded row of text cells, and what the host's \<open>Number\<close>, number printing,
  \<open>trim\<close> and \<open>Date\<close> do on these cells.
\<close>

definition demoNumber :: "string \<Rightarrow> jsnum" where
  "demoNumber s = (if s = ''007'' then Num 7 else if s = ''12'' then Num 12 else NaN)"

definition demoNumberText :: "real \<Rightarrow> string" where
  "demoNumberText x = (if x = 7 then ''7'' else if x = 12 then ''12'' else ''0'')"

definition demoTrim :: "string \<Rightarrow> string" where
  "demoTrim s = s"

definition demoValidDate :: "jsval \<Rightarrow> bool" where
  "demoValidDate v = (v = JString ''2024-01-01'')"

definition demoRows :: "jsobject list" where
  "demoRows =
     [[(''code'', JString ''007''), (''qty'', JString ''12''), (''price'', JString ''1,000''),
       (''day'', JString ''2024-01-01''), (''note'', JNull)]]"














text \<open>
  Two days of amounts, the later day first; the time series these rows give; and a
  numeric column without a single valid number, with its statistics.
\<close>

definition dailyRows :: "jsobject list" where
  "dailyRows =
     [[(''day'', JString ''2024-01-02''), (''amount'', JNumber (Num 5))],
      [(''day'', JString ''2024-01-01''), (''amount'', JNumber (Num 3))]]"

definition dailyTypes :: "string \<rightharpoonup> coltype" where
  "dailyTypes = [''day'' \<mapsto> TDate, ''amount'' \<mapsto> TNumber]"

definition dailyAggregation :: AggregationResult where
  "dailyAggregation =
     \<lparr> description = ''amount over time (by day)'', groupBy = ''day'', metric = ''amount'',
       operation = ''sum'',
       rows = [[(''day'', JString ''2024-01-01''), (''amount'', JNumber (Num 3))],
               [(''day'', JString ''2024-01-02''), (''amount'', JNumber (Num 5))]] \<rparr>"

definition blankRows :: "jsobject list" where
  "blankRows = [[(''n'', JNumber NaN)], [(''n'', JNull)]]"

definition blankTypes :: "string \<rightharpoonup> coltype" where
  "blankTypes = [''n'' \<mapsto> TNumber]"

definition blankStat :: ColumnStats where
  "blankStat = \<lparr> column = ''n'', ctype = TNumber, uniqueCount = 2, nullCount = 1,
                  numeric = None, topValues = None, dateRange = None \<rparr>"

text \<open>
  Two days written with month names, one with a capital. The host's default collation
  compares letters before their case, so that \<open>localeCompare\<close> puts "feb 1 2024"
  before "Jan 5 2024"; the lower-cased string is a collation key that orders these two
  strings as the host does.
\<close>

definition monthRows :: "jsobject list" where
  "monthRows =
     [[(''day'', JString ''Jan 5 2024''), (''amount'', JNumber (Num 1))],
      [(''day'', JString ''feb 1 2024''), (''amount'', JNumber (Num 2))]]"

definition regionTypes :: "string \<rightharpoonup> coltype" where
  "regionTypes = [''region'' \<mapsto> TString, ''revenue'' \<mapsto> TNumber]"

text \<open>
  The aggregation of scenario D, and the summary of the rows of scenario A, which
  holds it.
\<close>

definition regionRevenueSum :: AggregationResult where
  "regionRevenueSum =
     \<lparr> description = ''Total revenue by region'', groupBy = ''region'', metric = ''revenue'',
       operation = ''sum'',
       rows = [[(''region'', JString ''East''), (''revenue'', JNumber (Num 300))],
               [(''region'', JString ''West''), (''revenue'', JNumber (Num 50))]] \<rparr>"

definition regionSummary :: DataSummary where
  "regionSummary =
     analyzeDataset exactHost noNumberText id regionRows [''region'', ''revenue''] regionTypes"

text \<open>
  A bank of two aggregations of revenue by region: the average, described as
  \<open>analyzeDataset\<close> describes it, and after it the sum, described as "Sales".
\<close>

definition averageRevenue :: AggregationResult where
  "averageRevenue =
     \<lparr> description = ''Average revenue by region'', groupBy = ''region'', metric = ''revenue'',
       operation = ''mean'', rows = [] \<rparr>"

definition salesRevenue :: AggregationResult where
  "salesRevenue =
     \<lparr> description = ''Sales'', groupBy = ''region'', metric = ''revenue'',
       operation = ''sum'', rows = [] \<rparr>"

definition salesSummary :: DataSummary where
  "salesSummary =
     \<lparr> rowCount = 0, columnCount = 2, columns = [''region'', ''revenue''],
       columnTypes = regionTypes, columnStats = [],
       categoricalColumns = [''region''], numericColumns = [''revenue''], dateColumns = [],
       precomputedAggregations = [averageRevenue, salesRevenue], correlations = [] \<rparr>"




section \<open>Properties: the insertion-ordered maps of the two group-by loops\<close>

lemma firstSeen_Nil: "firstSeen [] = []"
  by (simp add: firstSeen_def)

lemma firstSeen_snoc: "firstSeen (xs @ [x]) = (if x \<in> set xs then firstSeen xs else firstSeen xs @ [x])"
  by (simp add: firstSeen_def)

lemma set_firstSeen: "set (firstSeen xs) = set xs"
  by (simp add: firstSeen_def)

lemma distinct_firstSeen: "distinct (firstSeen xs)"
  by (simp add: firstSeen_def)


lemma map_of_tabulate: "map_of (map (\<lambda>k. (k, f k)) ks) k = (if k \<in> set ks then Some (f k) else None)"
  by (induction ks) auto

lemma update_tabulate_new:
  "k \<notin> set ks \<Longrightarrow> AList.update k v (map (\<lambda>k'. (k', f k')) ks) = map (\<lambda>k'. (k', f k')) ks @ [(k, v)]"
  by (induction ks) auto

lemma update_tabulate_old:
  "k \<in> set ks \<Longrightarrow> distinct ks \<Longrightarrow>
     AList.update k v (map (\<lambda>k'. (k', f k')) ks) = map (\<lambda>k'. (k', if k' = k then v else f k')) ks"
  by (induction ks) auto

lemma map_entry_tabulate:
  "distinct ks \<Longrightarrow>
     AList.map_entry k F (map (\<lambda>k'. (k', f k')) ks) = map (\<lambda>k'. (k', if k' = k then F (f k') else f k')) ks"
  by (induction ks) auto

lemma filter_key_absent: "k \<notin> f ` set xs \<Longrightarrow> filter (\<lambda>r. f r = k) xs = []"
  by (induction xs) auto

lemma foldl_countStep:
  "foldl (countStep ns col) [] data = frequencyTable ns data col"
proof (induction data rule: rev_induct)
  case Nil
  show ?case by (simp add: frequencyTable_def firstSeen_Nil)
next
  case (snoc x xs)
  let ?key = "categoryKey ns col"
  let ?ks = "map ?key xs"
  let ?cnt = "\<lambda>d k. length (filter (\<lambda>row. ?key row = k) d)"
  have step: "foldl (countStep ns col) [] (xs @ [x])
      = AList.update (?key x) ((case map_of (frequencyTable ns xs col) (?key x) of None \<Rightarrow> 0 | Some c \<Rightarrow> c) + 1)
          (frequencyTable ns xs col)"
  proof -
    have "foldl (countStep ns col) [] (xs @ [x]) = countStep ns col (foldl (countStep ns col) [] xs) x"
      by simp
    also have "\<dots> = countStep ns col (frequencyTable ns xs col) x" by (simp only: snoc.IH)
    finally have e: "foldl (countStep ns col) [] (xs @ [x]) = countStep ns col (frequencyTable ns xs col) x" .
    show ?thesis
      unfolding e countStep_def Let_def categoryKey_def [symmetric] by simp
  qed
  show ?case
  proof (cases "?key x \<in> set ?ks")
    case True
    have "foldl (countStep ns col) [] (xs @ [x])
       = map (\<lambda>k'. (k', if k' = ?key x then ?cnt xs (?key x) + 1 else ?cnt xs k')) (firstSeen ?ks)"
      unfolding step frequencyTable_def
      using True by (simp add: map_of_tabulate set_firstSeen update_tabulate_old distinct_firstSeen)
    also have "\<dots> = frequencyTable ns (xs @ [x]) col"
      unfolding frequencyTable_def using True by (auto simp: firstSeen_snoc)
    finally show ?thesis .
  next
    case False
    have z: "?cnt xs (?key x) = 0" using False by (simp add: filter_key_absent)
    have "foldl (countStep ns col) [] (xs @ [x])
       = map (\<lambda>k'. (k', ?cnt xs k')) (firstSeen ?ks) @ [(?key x, 1)]"
      unfolding step frequencyTable_def
      using False by (simp add: map_of_tabulate set_firstSeen update_tabulate_new)
    also have "\<dots> = frequencyTable ns (xs @ [x]) col"
      unfolding frequencyTable_def using False z by (auto simp: firstSeen_snoc set_firstSeen)
    finally show ?thesis .
  qed
qed

lemma map_filter_append: "List.map_filter f (xs @ ys) = List.map_filter f xs @ List.map_filter f ys"
  by (simp add: List.map_filter_def)

lemma foldl_groupStep:
  "foldl (groupStep ns g v) [] data
     = map (\<lambda>k. (k, groupValues ns data g v k)) (groupKeys ns data g)"
proof (induction data rule: rev_induct)
  case Nil
  show ?case by (simp add: groupKeys_def firstSeen_Nil)
next
  case (snoc x xs)
  let ?key = "groupKeyOf ns g"
  let ?ks = "map ?key xs"
  let ?tab = "\<lambda>d. map (\<lambda>k. (k, groupValues ns d g v k)) (groupKeys ns d g)"
  let ?new = "(case validNumber (field x v) of Some val \<Rightarrow> [val] | None \<Rightarrow> [])"
  have gv: "\<And>k. groupValues ns (xs @ [x]) g v k
              = groupValues ns xs g v k @ (if ?key x = k then ?new else [])"
    by (auto simp: groupValues_def numericValues_def map_filter_append List.map_filter_simps
        split: option.splits)
  let ?g1 = "if ?key x \<in> set ?ks then ?tab xs else ?tab xs @ [(?key x, [])]"
  have g1: "?g1 = map (\<lambda>k. (k, groupValues ns xs g v k)) (groupKeys ns (xs @ [x]) g)"
  proof (cases "?key x \<in> set ?ks")
    case True then show ?thesis by (simp add: groupKeys_def firstSeen_snoc)
  next
    case False
    then have "groupValues ns xs g v (?key x) = []"
      by (simp add: groupValues_def numericValues_def List.map_filter_simps filter_key_absent)
    with False show ?thesis by (simp add: groupKeys_def firstSeen_snoc)
  qed
  have step: "foldl (groupStep ns g v) [] (xs @ [x])
      = (case validNumber (field x v) of
           Some val \<Rightarrow> AList.map_entry (?key x) (\<lambda>values. values @ [val]) ?g1
         | None \<Rightarrow> ?g1)"
  proof -
    have "foldl (groupStep ns g v) [] (xs @ [x]) = groupStep ns g v (foldl (groupStep ns g v) [] xs) x"
      by simp
    also have "\<dots> = groupStep ns g v (?tab xs) x" by (simp only: snoc.IH)
    finally have e: "foldl (groupStep ns g v) [] (xs @ [x]) = groupStep ns g v (?tab xs) x" .
    show ?thesis
      unfolding e groupStep_def Let_def groupKeyOf_def [symmetric]
      by (simp add: map_of_tabulate groupKeys_def set_firstSeen split: option.splits)
  qed
  have d: "distinct (groupKeys ns (xs @ [x]) g)" by (simp add: groupKeys_def distinct_firstSeen)
  show ?case
    unfolding step g1
    by (cases "validNumber (field x v)") (simp_all add: map_entry_tabulate [OF d] gv)
qed

lemma insort_key_map: "insort_key f (h x) (map h xs) = map h (insort_key (\<lambda>y. f (h y)) x xs)"
  by (induction xs) auto

lemma sort_key_map: "sort_key f (map h xs) = map h (sort_key (\<lambda>y. f (h y)) xs)"
  by (induction xs) (auto simp: insort_key_map)


section \<open>Properties: categorical column statistics\<close>

text \<open>
  Claim C8, as the code has it. \<open>computeCategoricalStats\<close> counts the rows by the
  string form of the cell, where \<open>null\<close> and a missing key count under "null" and
  every other value, the empty string too, under its own string form; it ranks the
  (value, count) pairs by descending count, pairs with the same count staying in the
  order in which the values were first seen, and returns the first 10 at most.
\<close>

theorem computeCategoricalStats_top10:
  "computeCategoricalStats ns data col
     = take 10 (sort_key (\<lambda>e. - int (snd e)) (frequencyTable ns data col))
   \<and> length (computeCategoricalStats ns data col) \<le> 10
   \<and> sorted (map (\<lambda>e. - int (snd e)) (computeCategoricalStats ns data col))
   \<and> filter (\<lambda>e. snd e = c) (sort_key (\<lambda>e. - int (snd e)) (frequencyTable ns data col))
       = filter (\<lambda>e. snd e = c) (frequencyTable ns data col)
   \<and> categoryKey ns col row =
       (case field row col of
          None \<Rightarrow> ''null''
        | Some JNull \<Rightarrow> ''null''
        | Some (JString s) \<Rightarrow> s
        | Some (JNumber n) \<Rightarrow> jsString ns (Some (JNumber n)))"
proof -
  let ?sorted = "sort_key (\<lambda>e. - int (snd e)) (frequencyTable ns data col)"
  have A: "computeCategoricalStats ns data col = take 10 ?sorted"
    by (simp add: computeCategoricalStats_def foldl_countStep)
  have B: "length (computeCategoricalStats ns data col) \<le> 10" by (simp add: A)
  have "sorted (take 10 (map (\<lambda>e. - int (snd e)) ?sorted))"
    by (intro sorted_wrt_take sorted_sort_key)
  then have C: "sorted (map (\<lambda>e. - int (snd e)) (computeCategoricalStats ns data col))"
    by (simp add: A take_map)
  have D: "filter (\<lambda>e. snd e = c) ?sorted = filter (\<lambda>e. snd e = c) (frequencyTable ns data col)"
    using sort_key_stable [of "\<lambda>e. - int (snd e)" "- int c" "frequencyTable ns data col"] by simp
  have E: "categoryKey ns col row =
       (case field row col of
          None \<Rightarrow> ''null''
        | Some JNull \<Rightarrow> ''null''
        | Some (JString s) \<Rightarrow> s
        | Some (JNumber n) \<Rightarrow> jsString ns (Some (JNumber n)))"
    by (simp add: categoryKey_def split: option.splits jsval.splits)
  show ?thesis using A B C D E by blast
qed


text \<open>
  Claim C8 as stated fails for the empty string, which \<open>??\<close> does not replace: a
  column whose only cell is the empty string is counted under the empty string, not
  under "null".
\<close>

theorem computeCategoricalStats_empty_string_counterexample:
  "computeCategoricalStats noNumberText [[(''city'', JString '''')]] ''city'' = [('''', 1)]
   \<and> computeCategoricalStats noNumberText [[(''city'', JString '''')]] ''city'' \<noteq> [(''null'', 1)]"
  by (simp add: computeCategoricalStats_def countStep_def field_def)

section \<open>Properties: correlations\<close>

lemma in_correlationsOf:
  assumes "c \<in> set (correlationsOf H data numCols)"
  shows "3 \<le> length (pairedSamples data (xColumn c) (yColumn c))
     \<and> correlation c = pearsonCorrelation H (map fst (pairedSamples data (xColumn c) (yColumn c)))
                                         (map snd (pairedSamples data (xColumn c) (yColumn c)))
     \<and> scatterData c = take 100 (pairedSamples data (xColumn c) (yColumn c))
     \<and> (\<exists>i j. i < j \<and> j < length numCols \<and> j < 5 \<and> xColumn c = numCols ! i \<and> yColumn c = numCols ! j)"
  using assms unfolding correlationsOf_def Let_def
  apply (auto split: if_splits)
  subgoal for i j by (rule exI [of _ i], rule exI [of _ j]) auto
  done

lemma length_pairedSamples_sym: "length (pairedSamples data x y) = length (pairedSamples data y x)"
  unfolding pairedSamples_def
  by (induction data) (auto simp: List.map_filter_simps split: option.splits)

lemma correlations_analyzeDataset:
  "correlations (analyzeDataset H ns ck data cols types)
     = correlationsOf H data (numericColumns (analyzeDataset H ns ck data cols types))"
  by (simp add: analyzeDataset_def Let_def)


text \<open>
  Claim C10. Every correlation result in the summary was computed from at least 3 rows
  in which both of its columns hold a valid number; so for two columns with fewer than
  3 such rows the summary has no correlation result at all, in either order of the two
  columns.
\<close>

theorem correlations_need_three_pairs:
  "(\<forall>c\<in>set (correlations (analyzeDataset H ns ck data cols types)).
       3 \<le> length (pairedSamples data (xColumn c) (yColumn c))
     \<and> correlation c = pearsonCorrelation H (map fst (pairedSamples data (xColumn c) (yColumn c)))
                                         (map snd (pairedSamples data (xColumn c) (yColumn c))))
   \<and> (length (pairedSamples data x y) < 3 \<longrightarrow>
        (\<forall>c\<in>set (correlations (analyzeDataset H ns ck data cols types)).
            \<not> (xColumn c = x \<and> yColumn c = y) \<and> \<not> (xColumn c = y \<and> yColumn c = x)))"
proof -
  let ?S = "analyzeDataset H ns ck data cols types"
  have a: "\<And>c. c \<in> set (correlations ?S) \<Longrightarrow>
       3 \<le> length (pairedSamples data (xColumn c) (yColumn c))
     \<and> correlation c = pearsonCorrelation H (map fst (pairedSamples data (xColumn c) (yColumn c)))
                                         (map snd (pairedSamples data (xColumn c) (yColumn c)))"
    unfolding correlations_analyzeDataset using in_correlationsOf by blast
  have b: "\<And>c. length (pairedSamples data x y) < 3 \<Longrightarrow> c \<in> set (correlations ?S) \<Longrightarrow>
       \<not> (xColumn c = x \<and> yColumn c = y) \<and> \<not> (xColumn c = y \<and> yColumn c = x)"
  proof -
    fix c assume l: "length (pairedSamples data x y) < 3" and c: "c \<in> set (correlations ?S)"
    have "3 \<le> length (pairedSamples data (xColumn c) (yColumn c))" using a [OF c] by simp
    then show "\<not> (xColumn c = x \<and> yColumn c = y) \<and> \<not> (xColumn c = y \<and> yColumn c = x)"
      using l length_pairedSamples_sym [of data x y] by auto
  qed
  show ?thesis using a b by blast
qed


theorem correlations_need_three_pairs_witness:
  "sampleCorrelation
     \<in> set (correlations (analyzeDataset exactHost noNumberText id sampleRows [''a'', ''b'', ''c''] sampleTypes))
   \<and> 3 \<le> length (pairedSamples sampleRows (xColumn sampleCorrelation) (yColumn sampleCorrelation))
   \<and> length (pairedSamples sampleRows ''a'' ''c'') < 3
   \<and> \<not> (xColumn sampleCorrelation = ''a'' \<and> yColumn sampleCorrelation = ''c'')"
proof -
  have e: "sampleCorrelation
     \<in> set (correlations (analyzeDataset exactHost noNumberText id sampleRows [''a'', ''b'', ''c''] sampleTypes))"
    by (simp add: analyzeDataset_def correlationsOf_def pairedSamples_def field_def sampleRows_def
        sampleTypes_def sampleCorrelation_def List.map_filter_simps Let_def upt_rec)
  have l: "length (pairedSamples sampleRows ''a'' ''c'') < 3"
    by (simp add: pairedSamples_def field_def sampleRows_def List.map_filter_simps)
  show ?thesis
    using correlations_need_three_pairs [of exactHost noNumberText id sampleRows "[''a'', ''b'', ''c'']" sampleTypes "''a''" "''c''"] e l
    by blast
qed

section \<open>Properties: inferring the column types\<close>

lemma foldl_map_upd:
  "foldl (\<lambda>types col. types(col \<mapsto> f col)) m cols
     = (\<lambda>col. if col \<in> set cols then Some (f col) else m col)"
  by (induction cols arbitrary: m) (auto simp: fun_eq_iff)

lemma detectColumnTypes_apply:
  "data \<noteq> [] \<Longrightarrow>
     detectColumnTypes toNumber ns trim validDate data col
       = (if col \<in> set (objectKeys (hd data))
          then Some (inferType toNumber ns trim validDate data col) else None)"
  by (simp add: detectColumnTypes_def foldl_map_upd hd_conv_nth)

lemma nonEmpty_Some: "nonEmpty v = Some w \<longleftrightarrow> v = Some w \<and> \<not> isNullOrEmpty v"
  by (cases v rule: nonEmpty.cases) auto

lemma nonEmpty_None: "nonEmpty v = None \<longleftrightarrow> isNullOrEmpty v"
  by (cases v rule: nonEmpty.cases) auto

lemma columnSamples_filter:
  "map Some (columnSamples data col)
     = filter (\<lambda>v. \<not> isNullOrEmpty v) (map (\<lambda>row. field row col) (take 10 data))"
proof -
  have "\<And>rs. map Some (List.map_filter (\<lambda>row. nonEmpty (field row col)) rs)
      = filter (\<lambda>v. \<not> isNullOrEmpty v) (map (\<lambda>row. field row col) rs)"
  proof -
    fix rs
    show "map Some (List.map_filter (\<lambda>row. nonEmpty (field row col)) rs)
      = filter (\<lambda>v. \<not> isNullOrEmpty v) (map (\<lambda>row. field row col) rs)"
    proof (induction rs)
      case Nil
      show ?case by (simp add: List.map_filter_simps)
    next
      case (Cons r rs)
      show ?case
      proof (cases "nonEmpty (field r col)")
        case None
        then have "isNullOrEmpty (field r col)" by (simp add: nonEmpty_None)
        then show ?thesis using Cons None by (simp add: List.map_filter_simps)
      next
        case (Some w)
        then have "field r col = Some w" "\<not> isNullOrEmpty (field r col)"
          using nonEmpty_Some by blast+
        then show ?thesis using Cons Some by (simp add: List.map_filter_simps)
      qed
    qed
  qed
  then show ?thesis by (simp add: columnSamples_def)
qed

lemma length_columnSamples: "length (columnSamples data col) \<le> 10"
proof -
  have "length (map Some (columnSamples data col)) \<le> length (map (\<lambda>row. field row col) (take 10 data))"
    unfolding columnSamples_filter by (rule length_filter_le)
  then show ?thesis by simp
qed

lemma inferType_rules:
  "inferType toNumber ns trim validDate data col
     = (if columnSamples data col = [] then TString
        else if (\<forall>v\<in>set (columnSamples data col). numericLiteral toNumber ns trim v) then TNumber
        else if (\<forall>v\<in>set (columnSamples data col). validDate v) then TDate
        else TString)"
  by (simp add: inferType_def Let_def list_all_iff)

lemma numericLiteral_string:
  "numericLiteral toNumber ns trim (JString s)
     \<longleftrightarrow> (\<exists>p. toNumber s = Num p \<and> ns p = trim s)
         \<or> toNumber s = PosInf \<and> trim s = ''Infinity''
         \<or> toNumber s = NegInf \<and> trim s = ''-Infinity''"
  by (cases "toNumber s") auto


lemma demo_samples:
  "columnSamples demoRows ''code'' = [JString ''007'']"
  "columnSamples demoRows ''qty'' = [JString ''12'']"
  "columnSamples demoRows ''price'' = [JString ''1,000'']"
  "columnSamples demoRows ''day'' = [JString ''2024-01-01'']"
  "columnSamples demoRows ''note'' = []"
  by (simp_all add: columnSamples_def demoRows_def field_def List.map_filter_simps)


text \<open>
  Claim C4. \<open>detectColumnTypes\<close> types no column of an empty upload and otherwise
  exactly the keys of the first row, each once, from the cells of the first 10 rows
  that are neither \<open>null\<close>, missing nor the empty string: a column without such a cell
  is a string column; else it is a number column if every sample is a number or a
  string whose parsed number prints as the trimmed string; else a date column if every
  sample gives a valid date; else a string column. With \<open>Number("007")\<close> being 7,
  printed "7", and \<open>Number("1,000")\<close> being \<open>NaN\<close>, a column with the sample "007" or
  "1,000" is not a number column.
\<close>

theorem detectColumnTypes_rules:
  "(data = [] \<longrightarrow> detectColumnTypes toNumber ns trim validDate data = Map.empty)
   \<and> (data \<noteq> [] \<longrightarrow>
        dom (detectColumnTypes toNumber ns trim validDate data) = set (objectKeys (hd data))
      \<and> (\<forall>c\<in>set (objectKeys (hd data)).
            detectColumnTypes toNumber ns trim validDate data c
              = Some (if columnSamples data c = [] then TString
                      else if (\<forall>v\<in>set (columnSamples data c). numericLiteral toNumber ns trim v)
                        then TNumber
                      else if (\<forall>v\<in>set (columnSamples data c). validDate v) then TDate
                      else TString)))
   \<and> map Some (columnSamples data col)
       = filter (\<lambda>v. \<not> isNullOrEmpty v) (map (\<lambda>row. field row col) (take 10 data))
   \<and> length (columnSamples data col) \<le> 10
   \<and> numericLiteral toNumber ns trim (JNumber n)
   \<and> (numericLiteral toNumber ns trim (JString s)
        \<longleftrightarrow> (\<exists>p. toNumber s = Num p \<and> ns p = trim s)
            \<or> toNumber s = PosInf \<and> trim s = ''Infinity''
            \<or> toNumber s = NegInf \<and> trim s = ''-Infinity'')
   \<and> (data \<noteq> [] \<and> col \<in> set (objectKeys (hd data))
        \<and> JString ''007'' \<in> set (columnSamples data col)
        \<and> toNumber ''007'' = Num 7 \<and> ns 7 = ''7'' \<and> trim ''007'' = ''007''
        \<longrightarrow> detectColumnTypes toNumber ns trim validDate data col \<noteq> Some TNumber)
   \<and> (data \<noteq> [] \<and> col \<in> set (objectKeys (hd data))
        \<and> JString ''1,000'' \<in> set (columnSamples data col)
        \<and> toNumber ''1,000'' = NaN
        \<longrightarrow> detectColumnTypes toNumber ns trim validDate data col \<noteq> Some TNumber)"
proof -
  let ?detect = "detectColumnTypes toNumber ns trim validDate data"
  have A: "data = [] \<longrightarrow> ?detect = Map.empty" by (simp add: detectColumnTypes_def)
  have B: "data \<noteq> [] \<longrightarrow>
        dom ?detect = set (objectKeys (hd data))
      \<and> (\<forall>c\<in>set (objectKeys (hd data)).
            ?detect c
              = Some (if columnSamples data c = [] then TString
                      else if (\<forall>v\<in>set (columnSamples data c). numericLiteral toNumber ns trim v)
                        then TNumber
                      else if (\<forall>v\<in>set (columnSamples data c). validDate v) then TDate
                      else TString))"
    by (auto simp: detectColumnTypes_apply inferType_rules dom_def)
  have C: "map Some (columnSamples data col)
       = filter (\<lambda>v. \<not> isNullOrEmpty v) (map (\<lambda>row. field row col) (take 10 data))"
    by (rule columnSamples_filter)
  have D: "length (columnSamples data col) \<le> 10" by (rule length_columnSamples)
  have E: "numericLiteral toNumber ns trim (JNumber n)" by simp
  have F: "numericLiteral toNumber ns trim (JString s)
        \<longleftrightarrow> (\<exists>p. toNumber s = Num p \<and> ns p = trim s)
            \<or> toNumber s = PosInf \<and> trim s = ''Infinity''
            \<or> toNumber s = NegInf \<and> trim s = ''-Infinity''"
    by (rule numericLiteral_string)
  have G: "data \<noteq> [] \<and> col \<in> set (objectKeys (hd data))
        \<and> JString ''007'' \<in> set (columnSamples data col)
        \<and> toNumber ''007'' = Num 7 \<and> ns 7 = ''7'' \<and> trim ''007'' = ''007''
        \<longrightarrow> ?detect col \<noteq> Some TNumber"
  proof
    assume h: "data \<noteq> [] \<and> col \<in> set (objectKeys (hd data))
        \<and> JString ''007'' \<in> set (columnSamples data col)
        \<and> toNumber ''007'' = Num 7 \<and> ns 7 = ''7'' \<and> trim ''007'' = ''007''"
    then have "\<not> numericLiteral toNumber ns trim (JString ''007'')" by simp
    with h have "\<not> (\<forall>v\<in>set (columnSamples data col). numericLiteral toNumber ns trim v)" by blast
    then have "inferType toNumber ns trim validDate data col \<noteq> TNumber"
      unfolding inferType_rules by auto
    with h show "?detect col \<noteq> Some TNumber"
      by (simp add: detectColumnTypes_apply)
  qed
  have H: "data \<noteq> [] \<and> col \<in> set (objectKeys (hd data))
        \<and> JString ''1,000'' \<in> set (columnSamples data col)
        \<and> toNumber ''1,000'' = NaN
        \<longrightarrow> ?detect col \<noteq> Some TNumber"
  proof
    assume h: "data \<noteq> [] \<and> col \<in> set (objectKeys (hd data))
        \<and> JString ''1,000'' \<in> set (columnSamples data col)
        \<and> toNumber ''1,000'' = NaN"
    then have "\<not> numericLiteral toNumber ns trim (JString ''1,000'')" by simp
    with h have "\<not> (\<forall>v\<in>set (columnSamples data col). numericLiteral toNumber ns trim v)" by blast
    then have "inferType toNumber ns trim validDate data col \<noteq> TNumber"
      unfolding inferType_rules by auto
    with h show "?detect col \<noteq> Some TNumber"
      by (simp add: detectColumnTypes_apply)
  qed
  show ?thesis using A B C D E F G H by blast
qed


theorem detectColumnTypes_rules_witness:
  "demoRows \<noteq> []
   \<and> ''code'' \<in> set (objectKeys (hd demoRows))
   \<and> JString ''007'' \<in> set (columnSamples demoRows ''code'')
   \<and> demoNumber ''007'' = Num 7 \<and> demoNumberText 7 = ''7'' \<and> demoTrim ''007'' = ''007''
   \<and> detectColumnTypes demoNumber demoNumberText demoTrim demoValidDate demoRows ''code'' = Some TString
   \<and> detectColumnTypes demoNumber demoNumberText demoTrim demoValidDate demoRows ''qty'' = Some TNumber
   \<and> detectColumnTypes demoNumber demoNumberText demoTrim demoValidDate demoRows ''price'' = Some TString
   \<and> detectColumnTypes demoNumber demoNumberText demoTrim demoValidDate demoRows ''day'' = Some TDate
   \<and> detectColumnTypes demoNumber demoNumberText demoTrim demoValidDate demoRows ''note'' = Some TString
   \<and> detectColumnTypes demoNumber demoNumberText demoTrim demoValidDate [] = Map.empty"
proof -
  note T = detectColumnTypes_rules [of demoRows demoNumber demoNumberText demoTrim demoValidDate "''code''"]
  have ne: "demoRows \<noteq> []" by (simp add: demoRows_def)
  have keys: "objectKeys (hd demoRows) = [''code'', ''qty'', ''price'', ''day'', ''note'']"
    by (simp add: demoRows_def objectKeys_def)
  from T ne have all: "\<forall>c\<in>set (objectKeys (hd demoRows)).
            detectColumnTypes demoNumber demoNumberText demoTrim demoValidDate demoRows c
              = Some (if columnSamples demoRows c = [] then TString
                      else if (\<forall>v\<in>set (columnSamples demoRows c). numericLiteral demoNumber demoNumberText demoTrim v)
                        then TNumber
                      else if (\<forall>v\<in>set (columnSamples demoRows c). demoValidDate v) then TDate
                      else TString)" by blast
  have t: "detectColumnTypes demoNumber demoNumberText demoTrim demoValidDate demoRows ''code'' = Some TString"
    "detectColumnTypes demoNumber demoNumberText demoTrim demoValidDate demoRows ''qty'' = Some TNumber"
    "detectColumnTypes demoNumber demoNumberText demoTrim demoValidDate demoRows ''price'' = Some TString"
    "detectColumnTypes demoNumber demoNumberText demoTrim demoValidDate demoRows ''day'' = Some TDate"
    "detectColumnTypes demoNumber demoNumberText demoTrim demoValidDate demoRows ''note'' = Some TString"
    using all unfolding keys
    by (simp_all add: demo_samples demoNumber_def demoNumberText_def demoTrim_def demoValidDate_def)
  have e: "detectColumnTypes demoNumber demoNumberText demoTrim demoValidDate [] = Map.empty"
    using detectColumnTypes_rules [of "[]" demoNumber demoNumberText demoTrim demoValidDate] by blast
  have p: "demoNumber ''007'' = Num 7 \<and> demoNumberText 7 = ''7'' \<and> demoTrim ''007'' = ''007''"
    by (simp add: demoNumber_def demoNumberText_def demoTrim_def)
  show ?thesis using ne keys t e p by (simp add: demo_samples)
qed

section \<open>Properties: numeric column statistics\<close>




lemma ascKey_inject: "ascKey a = ascKey b \<longleftrightarrow> a = b"
  by (cases a; cases b) simp_all










lemma numLe_trans: "numLe a b \<Longrightarrow> numLe b c \<Longrightarrow> numLe a c"
  by (auto simp: numLe_def)

lemma exactHost_ops:
  "hAdd exactHost = exAdd" "hSub exactHost a b = exAdd a (negate b)" "hMul exactHost = exMul"
  "hDiv exactHost = exDiv" "hPow exactHost = exPow" "hSqrt exactHost = exSqrt"
  "hRound exactHost = exRound" "hSortNaN exactHost c rs = rs"
  by (simp_all add: exactHost_def)

lemma round2_exactHost:
  "round2 exactHost (Num x) = Num (of_int \<lfloor>x * 100 + 1 / 2\<rfloor> / 100)"
  "round2 exactHost PosInf = PosInf" "round2 exactHost NegInf = NegInf" "round2 exactHost NaN = NaN"
  by (simp_all add: round2_def exactHost_ops)
















lemma zeroLaws_exactHost: "zeroLaws exactHost"
  by (simp add: zeroLaws_def exactHost_ops exPow_def)















section \<open>Properties: aggregation by group\<close>



lemma field_groupRow_value: "field (groupRow g v k x) v = Some (JNumber x)"
  by (simp add: field_def groupRow_def update_conv')

lemma field_groupRow_key: "g \<noteq> v \<Longrightarrow> field (groupRow g v k x) g = Some (JString k)"
  by (simp add: field_def groupRow_def update_conv')

lemma numberAt_groupRow: "numberAt (groupRow g v k x) v = x"
  by (simp add: numberAt_def field_groupRow_value)

lemma reduceGroup_groupResult:
  "round2 H (reduceGroup H op (groupValues ns data g v k)) = groupResult H ns data g v op k"
  by (cases op) (simp_all add: reduceGroup_def groupResult_def Let_def reduceSum_def)

lemma aggregateByGroup_rows:
  "aggregateByGroup H ns data g v op
     = sortRowsDesc H v (map (\<lambda>k. groupRow g v k (groupResult H ns data g v op k))
                           (groupKeys ns data g))"
  by (simp add: aggregateByGroup_def foldl_groupStep o_def reduceGroup_groupResult)

lemma sortRowsDesc_ranked:
  assumes "\<forall>k\<in>set ks. res k \<noteq> NaN"
  shows "sortRowsDesc H v (map (\<lambda>k. groupRow g v k (res k)) ks)
     = map (\<lambda>k. groupRow g v k (res k)) (sort_key (\<lambda>k. descKey (res k)) ks)"
proof -
  have "\<not> list_ex (\<lambda>r. numberAt r v = NaN) (map (\<lambda>k. groupRow g v k (res k)) ks)"
    using assms by (simp add: list_ex_iff numberAt_groupRow)
  then show ?thesis by (simp add: sortRowsDesc_def sort_key_map numberAt_groupRow)
qed

lemma aggregateByGroup_ranked:
  assumes "\<forall>k\<in>set (groupKeys ns data g). groupResult H ns data g v op k \<noteq> NaN"
  shows "aggregateByGroup H ns data g v op
     = map (\<lambda>k. groupRow g v k (groupResult H ns data g v op k))
           (sort_key (\<lambda>k. descKey (groupResult H ns data g v op k)) (groupKeys ns data g))"
  unfolding aggregateByGroup_rows using assms by (rule sortRowsDesc_ranked)

lemma aggregateByGroup_Nil: "aggregateByGroup H ns [] g v op = []"
  by (simp add: aggregateByGroup_def sortRowsDesc_def)














section \<open>Properties: the summary of a dataset\<close>

lemma in_categoricalAggregations:
  assumes "a \<in> set (categoricalAggregations H ns data catCols numCols)"
  shows "groupBy a \<in> set (take 4 catCols) \<and> metric a \<in> set (take 6 numCols)
     \<and> (operation a = ''sum'' \<and> rows a = aggregateByGroup H ns data (groupBy a) (metric a) OpSum
        \<or> operation a = ''mean'' \<and> rows a = aggregateByGroup H ns data (groupBy a) (metric a) OpMean)"
  using assms unfolding categoricalAggregations_def
  by (auto split: if_splits)

lemma in_dateAggregations:
  assumes "a \<in> set (dateAggregations H ns ck data dateCols numCols)"
  shows "groupBy a \<in> set (take 2 dateCols) \<and> metric a \<in> set (take 4 numCols)
     \<and> operation a = ''sum''
     \<and> rows a = sort_key (\<lambda>r. ck (jsString ns (field r (groupBy a))))
                  (aggregateByGroup H ns data (groupBy a) (metric a) OpSum)"
  using assms unfolding dateAggregations_def
  by auto

lemma keys_dateAggregations:
  "map (\<lambda>a. (groupBy a, metric a)) (dateAggregations H ns ck data dateCols numCols)
     = List.product (take 2 dateCols) (take 4 numCols)"
  unfolding dateAggregations_def List.product_concat_map
  by (simp add: map_concat o_def)

lemma filter_concat_all:
  "(\<And>x. x \<in> set xs \<Longrightarrow> P x) \<Longrightarrow> filter P xs = xs"
  by (induction xs) auto

lemma filter_none:
  "(\<And>x. x \<in> set xs \<Longrightarrow> \<not> P x) \<Longrightarrow> filter P xs = []"
  by (induction xs) auto

lemma set_take_filter: "x \<in> set (take n (filter P xs)) \<Longrightarrow> P x"
  using in_set_takeD [of x n "filter P xs"] by simp

lemma date_part:
  "filter (\<lambda>a. types (groupBy a) = Some TDate)
       (precomputedAggregations (analyzeDataset H ns ck data cols types))
     = dateAggregations H ns ck data (dateColumns (analyzeDataset H ns ck data cols types))
         (numericColumns (analyzeDataset H ns ck data cols types))"
proof -
  let ?num = "filter (\<lambda>c. types c = Some TNumber) cols"
  let ?cat = "filter (\<lambda>c. types c = Some TString) cols"
  let ?dat = "filter (\<lambda>c. types c = Some TDate) cols"
  have c: "filter (\<lambda>a. types (groupBy a) = Some TDate) (categoricalAggregations H ns data ?cat ?num) = []"
  proof (rule filter_none)
    fix a assume "a \<in> set (categoricalAggregations H ns data ?cat ?num)"
    then have "groupBy a \<in> set (take 4 ?cat)" using in_categoricalAggregations by blast
    then have "types (groupBy a) = Some TString" by (rule set_take_filter)
    then show "\<not> types (groupBy a) = Some TDate" by simp
  qed
  have d: "filter (\<lambda>a. types (groupBy a) = Some TDate) (dateAggregations H ns ck data ?dat ?num)
      = dateAggregations H ns ck data ?dat ?num"
  proof (rule filter_concat_all)
    fix a assume "a \<in> set (dateAggregations H ns ck data ?dat ?num)"
    then have "groupBy a \<in> set (take 2 ?dat)" using in_dateAggregations by blast
    then show "types (groupBy a) = Some TDate" by (rule set_take_filter)
  qed
  show ?thesis by (simp add: analyzeDataset_def Let_def c d)
qed

lemma names_of_rows:
  assumes "g \<noteq> v" "\<forall>k\<in>set (groupKeys ns data g). groupResult H ns data g v op k \<noteq> NaN"
  shows "map (\<lambda>r. jsString ns (field r g))
           (sort_key (\<lambda>r. ck (jsString ns (field r g))) (aggregateByGroup H ns data g v op))
       = sort_key ck (sort_key (\<lambda>k. descKey (groupResult H ns data g v op k)) (groupKeys ns data g))"
  using assms(1)
  by (simp add: aggregateByGroup_ranked [OF assms(2)] sort_key_map o_def field_groupRow_key)

lemma sort_key_as_sort:
  assumes iso: "\<forall>a\<in>set xs. \<forall>b\<in>set xs. (f a \<le> f b) = (a \<le> b)" and d: "distinct xs"
  shows "sort_key f xs = sort xs"
proof -
  have "sorted (map f (sort_key f xs))" by (rule sorted_sort_key)
  then have "sorted_wrt (\<lambda>a b. f a \<le> f b) (sort_key f xs)" by (simp add: sorted_map)
  then have "sorted_wrt (\<le>) (sort_key f xs)"
  proof (rule sorted_wrt_mono_rel [rotated])
    fix a b assume "a \<in> set (sort_key f xs)" "b \<in> set (sort_key f xs)" "f a \<le> f b"
    then show "a \<le> b" using iso by simp
  qed
  then have s: "sorted (sort_key f xs)" by simp
  have "distinct (sort_key f xs)" "set (sort_key f xs) = set xs" using d by simp_all
  moreover have "sorted (sort xs)" "distinct (sort xs)" "set (sort xs) = set xs" using d by simp_all
  ultimately show ?thesis using s by (intro sorted_distinct_set_unique) simp_all
qed

lemma sort_sort_key: "distinct xs \<Longrightarrow> sort (sort_key g xs) = sort xs"
  by (intro sorted_distinct_set_unique) simp_all

lemma correlationsOf_Nil: "correlationsOf H [] numCols = []"
proof (cases "correlationsOf H [] numCols")
  case Nil
  then show ?thesis .
next
  case (Cons c cs)
  then have "c \<in> set (correlationsOf H [] numCols)" by simp
  from in_correlationsOf [OF this]
  have "3 \<le> length (pairedSamples [] (xColumn c) (yColumn c))" by blast
  then show ?thesis by (simp add: pairedSamples_def)
qed

lemma column_columnStat: "column (columnStat H ns data types col) = col"
  by (simp add: columnStat_def Let_def split: coltype.splits)

lemma numeric_columnStat:
  "numeric (columnStat H ns data types col)
     = (if ctype (columnStat H ns data types col) = TNumber then computeNumericStats H data col else None)"
  by (simp add: columnStat_def Let_def split: coltype.splits option.splits)

lemma computeNumericStats_None: "computeNumericStats H data col = None \<longleftrightarrow> numericValues data col = []"
  by (simp add: computeNumericStats_def numericStatsOf_def Let_def)


text \<open>
  Claim C9, as the code has it. In the summary of a dataset, the aggregations grouped
  by a date column are exactly one per pair of one of the first 2 date columns with one
  of the first 4 numeric columns, so 8 at most; each has operation sum, and its rows
  are the rows of \<open>aggregateByGroup\<close> sorted again, ascending in the host's
  \<open>localeCompare\<close> of the date keys (the order of the collation key \<open>ck\<close>), so that
  the keys no longer stand in descending order of the value. The order is the
  lexicographic one when the collation agrees with it on the keys of the column.
\<close>

theorem date_aggregations_time_ordered:
  assumes S: "S = analyzeDataset H ns ck data cols types"
  shows "(\<forall>a\<in>set (precomputedAggregations S). types (groupBy a) = Some TDate \<longrightarrow>
            groupBy a \<in> set (take 2 (dateColumns S))
          \<and> metric a \<in> set (take 4 (numericColumns S))
          \<and> operation a = ''sum''
          \<and> rows a = sort_key (\<lambda>r. ck (jsString ns (field r (groupBy a))))
                        (aggregateByGroup H ns data (groupBy a) (metric a) OpSum)
          \<and> sorted (map (\<lambda>r. ck (jsString ns (field r (groupBy a)))) (rows a))
          \<and> ((\<forall>k\<in>set (groupKeys ns data (groupBy a)).
                 groupResult H ns data (groupBy a) (metric a) OpSum k \<noteq> NaN) \<longrightarrow>
               map (\<lambda>r. jsString ns (field r (groupBy a))) (rows a)
                 = sort_key ck (sort_key (\<lambda>k. descKey (groupResult H ns data (groupBy a) (metric a) OpSum k))
                                  (groupKeys ns data (groupBy a)))
             \<and> ((\<forall>k\<in>set (groupKeys ns data (groupBy a)). \<forall>k'\<in>set (groupKeys ns data (groupBy a)).
                     (ck k \<le> ck k') = (k \<le> k')) \<longrightarrow>
                  map (\<lambda>r. jsString ns (field r (groupBy a))) (rows a)
                    = sort (groupKeys ns data (groupBy a)))))
     \<and> map (\<lambda>a. (groupBy a, metric a))
           (filter (\<lambda>a. types (groupBy a) = Some TDate) (precomputedAggregations S))
         = List.product (take 2 (dateColumns S)) (take 4 (numericColumns S))
     \<and> length (filter (\<lambda>a. types (groupBy a) = Some TDate) (precomputedAggregations S)) \<le> 8"
proof -
  let ?isDate = "\<lambda>a. types (groupBy a) = Some TDate"
  have part: "filter ?isDate (precomputedAggregations S)
      = dateAggregations H ns ck data (dateColumns S) (numericColumns S)"
    unfolding S by (rule date_part)
  have numCols: "numericColumns S = filter (\<lambda>c. types c = Some TNumber) cols"
    unfolding S by (simp add: analyzeDataset_def Let_def)
  have each: "\<forall>a\<in>set (precomputedAggregations S). ?isDate a \<longrightarrow>
            groupBy a \<in> set (take 2 (dateColumns S))
          \<and> metric a \<in> set (take 4 (numericColumns S))
          \<and> operation a = ''sum''
          \<and> rows a = sort_key (\<lambda>r. ck (jsString ns (field r (groupBy a))))
                        (aggregateByGroup H ns data (groupBy a) (metric a) OpSum)
          \<and> sorted (map (\<lambda>r. ck (jsString ns (field r (groupBy a)))) (rows a))
          \<and> ((\<forall>k\<in>set (groupKeys ns data (groupBy a)).
                 groupResult H ns data (groupBy a) (metric a) OpSum k \<noteq> NaN) \<longrightarrow>
               map (\<lambda>r. jsString ns (field r (groupBy a))) (rows a)
                 = sort_key ck (sort_key (\<lambda>k. descKey (groupResult H ns data (groupBy a) (metric a) OpSum k))
                                  (groupKeys ns data (groupBy a)))
             \<and> ((\<forall>k\<in>set (groupKeys ns data (groupBy a)). \<forall>k'\<in>set (groupKeys ns data (groupBy a)).
                     (ck k \<le> ck k') = (k \<le> k')) \<longrightarrow>
                  map (\<lambda>r. jsString ns (field r (groupBy a))) (rows a)
                    = sort (groupKeys ns data (groupBy a))))"
  proof (intro ballI impI)
    fix a assume a: "a \<in> set (precomputedAggregations S)" and d: "?isDate a"
    let ?keys = "groupKeys ns data (groupBy a)"
    let ?res = "groupResult H ns data (groupBy a) (metric a) OpSum"
    from a d have "a \<in> set (filter ?isDate (precomputedAggregations S))" by simp
    then have m: "a \<in> set (dateAggregations H ns ck data (dateColumns S) (numericColumns S))"
      by (simp only: part)
    note f = in_dateAggregations [OF m]
    from f have "metric a \<in> set (take 4 (filter (\<lambda>c. types c = Some TNumber) cols))"
      by (simp add: numCols)
    then have "types (metric a) = Some TNumber" by (rule set_take_filter)
    with d have ne: "groupBy a \<noteq> metric a" by auto
    have r: "rows a = sort_key (\<lambda>r. ck (jsString ns (field r (groupBy a))))
                        (aggregateByGroup H ns data (groupBy a) (metric a) OpSum)"
      using f by simp
    have s: "sorted (map (\<lambda>r. ck (jsString ns (field r (groupBy a)))) (rows a))"
      unfolding r by (rule sorted_sort_key)
    have n: "(\<forall>k\<in>set ?keys. ?res k \<noteq> NaN) \<longrightarrow>
               map (\<lambda>r. jsString ns (field r (groupBy a))) (rows a)
                 = sort_key ck (sort_key (\<lambda>k. descKey (?res k)) ?keys)
             \<and> ((\<forall>k\<in>set ?keys. \<forall>k'\<in>set ?keys. (ck k \<le> ck k') = (k \<le> k')) \<longrightarrow>
                  map (\<lambda>r. jsString ns (field r (groupBy a))) (rows a) = sort ?keys)"
    proof
      assume nn: "\<forall>k\<in>set ?keys. ?res k \<noteq> NaN"
      have e: "map (\<lambda>r. jsString ns (field r (groupBy a))) (rows a)
                 = sort_key ck (sort_key (\<lambda>k. descKey (?res k)) ?keys)"
        unfolding r using ne nn by (rule names_of_rows)
      have dk: "distinct ?keys" by (simp add: groupKeys_def distinct_firstSeen)
      have l: "(\<forall>k\<in>set ?keys. \<forall>k'\<in>set ?keys. (ck k \<le> ck k') = (k \<le> k')) \<longrightarrow>
                  map (\<lambda>r. jsString ns (field r (groupBy a))) (rows a) = sort ?keys"
      proof
        assume iso: "\<forall>k\<in>set ?keys. \<forall>k'\<in>set ?keys. (ck k \<le> ck k') = (k \<le> k')"
        have "sort_key ck (sort_key (\<lambda>k. descKey (?res k)) ?keys)
            = sort (sort_key (\<lambda>k. descKey (?res k)) ?keys)"
          using iso dk by (intro sort_key_as_sort) simp_all
        also have "\<dots> = sort ?keys" using dk by (rule sort_sort_key)
        finally show "map (\<lambda>r. jsString ns (field r (groupBy a))) (rows a) = sort ?keys"
          unfolding e .
      qed
      from e l show "map (\<lambda>r. jsString ns (field r (groupBy a))) (rows a)
                 = sort_key ck (sort_key (\<lambda>k. descKey (?res k)) ?keys)
             \<and> ((\<forall>k\<in>set ?keys. \<forall>k'\<in>set ?keys. (ck k \<le> ck k') = (k \<le> k')) \<longrightarrow>
                  map (\<lambda>r. jsString ns (field r (groupBy a))) (rows a) = sort ?keys)"
        by (rule conjI)
    qed
    from f have f1: "groupBy a \<in> set (take 2 (dateColumns S))"
      and f2: "metric a \<in> set (take 4 (numericColumns S))" and f3: "operation a = ''sum''"
      by simp_all
    show "groupBy a \<in> set (take 2 (dateColumns S))
          \<and> metric a \<in> set (take 4 (numericColumns S))
          \<and> operation a = ''sum''
          \<and> rows a = sort_key (\<lambda>r. ck (jsString ns (field r (groupBy a))))
                        (aggregateByGroup H ns data (groupBy a) (metric a) OpSum)
          \<and> sorted (map (\<lambda>r. ck (jsString ns (field r (groupBy a)))) (rows a))
          \<and> ((\<forall>k\<in>set ?keys. ?res k \<noteq> NaN) \<longrightarrow>
               map (\<lambda>r. jsString ns (field r (groupBy a))) (rows a)
                 = sort_key ck (sort_key (\<lambda>k. descKey (?res k)) ?keys)
             \<and> ((\<forall>k\<in>set ?keys. \<forall>k'\<in>set ?keys. (ck k \<le> ck k') = (k \<le> k')) \<longrightarrow>
                  map (\<lambda>r. jsString ns (field r (groupBy a))) (rows a) = sort ?keys))"
      by (intro conjI f1 f2 f3 r s n)
  qed
  have prod: "map (\<lambda>a. (groupBy a, metric a)) (filter ?isDate (precomputedAggregations S))
         = List.product (take 2 (dateColumns S)) (take 4 (numericColumns S))"
    unfolding part by (rule keys_dateAggregations)
  have "length (filter ?isDate (precomputedAggregations S))
      = length (take 2 (dateColumns S)) * length (take 4 (numericColumns S))"
    using arg_cong [OF prod, of length] by simp
  also have "\<dots> \<le> 2 * 4" by (intro mult_le_mono) simp_all
  finally have len: "length (filter ?isDate (precomputedAggregations S)) \<le> 8" by simp
  show ?thesis by (intro conjI each prod len)
qed



theorem date_aggregations_time_ordered_witness:
  "dailyAggregation
     \<in> set (precomputedAggregations
              (analyzeDataset exactHost noNumberText id dailyRows [''day'', ''amount''] dailyTypes))
   \<and> dailyTypes (groupBy dailyAggregation) = Some TDate
   \<and> groupBy dailyAggregation
       \<in> set (take 2 (dateColumns
                 (analyzeDataset exactHost noNumberText id dailyRows [''day'', ''amount''] dailyTypes)))
   \<and> operation dailyAggregation = ''sum''
   \<and> sorted (map (\<lambda>r. id (jsString noNumberText (field r (groupBy dailyAggregation))))
               (rows dailyAggregation))
   \<and> groupKeys noNumberText dailyRows ''day'' = [''2024-01-02'', ''2024-01-01'']
   \<and> map (\<lambda>r. jsString noNumberText (field r (groupBy dailyAggregation))) (rows dailyAggregation)
       = sort (groupKeys noNumberText dailyRows (groupBy dailyAggregation))
   \<and> map (\<lambda>r. jsString noNumberText (field r ''day'')) (rows dailyAggregation)
       = [''2024-01-01'', ''2024-01-02'']"
proof -
  let ?S = "analyzeDataset exactHost noNumberText id dailyRows [''day'', ''amount''] dailyTypes"
  have m: "dailyAggregation \<in> set (precomputedAggregations ?S)"
    by (simp add: analyzeDataset_def dailyRows_def dailyTypes_def dailyAggregation_def Let_def
        categoricalAggregations_def dateAggregations_def aggregateByGroup_def groupStep_def
        field_def reduceGroup_def reduceSum_def groupRow_def numberAt_def sortRowsDesc_def
        exactHost_ops round2_exactHost)
  have t: "dailyTypes (groupBy dailyAggregation) = Some TDate"
    by (simp add: dailyTypes_def dailyAggregation_def)
  have g: "groupBy dailyAggregation = ''day''" "metric dailyAggregation = ''amount''"
    by (simp_all add: dailyAggregation_def)
  have keys: "groupKeys noNumberText dailyRows ''day'' = [''2024-01-02'', ''2024-01-01'']"
    by (simp add: groupKeys_def firstSeen_def groupKeyOf_def dailyRows_def field_def)
  have r1: "groupResult exactHost noNumberText dailyRows ''day'' ''amount'' OpSum ''2024-01-02'' = Num 5"
    by (simp add: groupResult_def groupValues_def numericValues_def groupKeyOf_def dailyRows_def
        field_def List.map_filter_simps Let_def exactHost_ops round2_exactHost)
  have r2: "groupResult exactHost noNumberText dailyRows ''day'' ''amount'' OpSum ''2024-01-01'' = Num 3"
    by (simp add: groupResult_def groupValues_def numericValues_def groupKeyOf_def dailyRows_def
        field_def List.map_filter_simps Let_def exactHost_ops round2_exactHost)
  have nn: "\<forall>k\<in>set (groupKeys noNumberText dailyRows (groupBy dailyAggregation)).
      groupResult exactHost noNumberText dailyRows (groupBy dailyAggregation) (metric dailyAggregation)
        OpSum k \<noteq> NaN"
    by (simp add: g keys r1 r2)
  have iso: "\<forall>k\<in>set (groupKeys noNumberText dailyRows (groupBy dailyAggregation)).
      \<forall>k'\<in>set (groupKeys noNumberText dailyRows (groupBy dailyAggregation)). (id k \<le> id k') = (k \<le> k')"
    by simp
  note T = date_aggregations_time_ordered [OF refl, of exactHost noNumberText id dailyRows
      "[''day'', ''amount'']" dailyTypes, THEN conjunct1, rule_format, OF m t]
  from T have a: "groupBy dailyAggregation \<in> set (take 2 (dateColumns ?S))"
    and b: "operation dailyAggregation = ''sum''"
    and c: "sorted (map (\<lambda>r. id (jsString noNumberText (field r (groupBy dailyAggregation))))
               (rows dailyAggregation))" by blast+
  from T nn iso
  have d: "map (\<lambda>r. jsString noNumberText (field r (groupBy dailyAggregation))) (rows dailyAggregation)
       = sort (groupKeys noNumberText dailyRows (groupBy dailyAggregation))" by blast
  have e: "map (\<lambda>r. jsString noNumberText (field r ''day'')) (rows dailyAggregation)
       = [''2024-01-01'', ''2024-01-02'']"
    by (simp add: dailyAggregation_def field_def)
  show ?thesis by (intro conjI m t a b c keys d e)
qed


text \<open>
  Claim C9 as stated fails in the order: the rows are sorted by \<open>localeCompare\<close>, the
  host's collation, not lexicographically. For the days "Jan 5 2024" and "feb 1 2024"
  the lexicographic order puts "Jan 5 2024" first, its capital J having the lower
  code; the collation, which compares the letters before their case, puts
  "feb 1 2024" first, and so do the rows of the time series.
\<close>

theorem date_aggregations_lexicographic_counterexample:
  "precomputedAggregations
     (analyzeDataset exactHost noNumberText asciiLower monthRows [''day'', ''amount''] dailyTypes)
     = [\<lparr> description = ''amount over time (by day)'', groupBy = ''day'', metric = ''amount'',
          operation = ''sum'',
          rows = [[(''day'', JString ''feb 1 2024''), (''amount'', JNumber (Num 2))],
                  [(''day'', JString ''Jan 5 2024''), (''amount'', JNumber (Num 1))]] \<rparr>]
   \<and> ''Jan 5 2024'' < ''feb 1 2024''"
  by (simp add: analyzeDataset_def monthRows_def dailyTypes_def Let_def
      categoricalAggregations_def dateAggregations_def aggregateByGroup_def groupStep_def
      field_def reduceGroup_def reduceSum_def groupRow_def numberAt_def sortRowsDesc_def
      exactHost_ops round2_exactHost asciiLower_def asciiLowerChar_def less_char_def)

lemma bindE_simps: "bindE (Inl e) f = Inl e" "bindE (Inr x) f = f x"
  by (simp_all add: bindE_def)

lemma mapRows_Some: "mapRows f (map Some data) = Inr (map f data)"
  by (induction data) (simp_all add: bindE_simps)

lemma foldRows_Some: "foldRows f s (map Some data) = Inr (foldl f s data)"
  by (induction data arbitrary: s) simp_all

lemma mapRows_None: "None \<in> set rawData \<Longrightarrow> mapRows f rawData = Inl TypeError"
proof (induction rawData)
  case Nil
  then show ?case by simp
next
  case (Cons r rs)
  show ?case
  proof (cases r)
    case None
    then show ?thesis by simp
  next
    case (Some row)
    with Cons.prems have "None \<in> set rs" by simp
    then have "mapRows f rs = Inl TypeError" by (rule Cons.IH)
    then show ?thesis using Some by (simp add: bindE_simps)
  qed
qed

lemma sequenceE_Inr: "sequenceE (map (\<lambda>x. Inr (g x)) xs) = Inr (map g xs)"
  by (induction xs) (simp_all add: bindE_simps)

lemma sequenceE_map_Inr:
  assumes "\<And>x. x \<in> set xs \<Longrightarrow> f x = Inr (g x)"
  shows "sequenceE (map f xs) = Inr (map g xs)"
proof -
  have "map f xs = map (\<lambda>x. Inr (g x)) xs" using assms by simp
  then show ?thesis by (simp only: sequenceE_Inr)
qed

lemma map_filter_map: "List.map_filter f (map g xs) = List.map_filter (\<lambda>x. f (g x)) xs"
  by (induction xs) (simp_all add: List.map_filter_simps split: option.splits)

lemma if_Inr: "(if c then Inr a else Inr b) = Inr (if c then a else b)"
  by simp

lemma computeNumericStatsRaw_Some:
  "computeNumericStatsRaw H (map Some data) col = Inr (computeNumericStats H data col)"
  by (simp add: computeNumericStatsRaw_def mapRows_Some bindE_simps map_filter_map
      computeNumericStats_def numericValues_def)

lemma computeCategoricalStatsRaw_Some:
  "computeCategoricalStatsRaw ns (map Some data) col = Inr (computeCategoricalStats ns data col)"
  by (simp add: computeCategoricalStatsRaw_def foldRows_Some bindE_simps computeCategoricalStats_def)

lemma aggregateByGroupRaw_Some:
  "aggregateByGroupRaw H ns (map Some data) g v op = Inr (aggregateByGroup H ns data g v op)"
  by (simp add: aggregateByGroupRaw_def foldRows_Some bindE_simps aggregateByGroup_def)

lemma columnStatRaw_Some:
  "columnStatRaw H ns (map Some data) types col = Inr (columnStat H ns data types col)"
  by (simp add: columnStatRaw_def columnStat_def Let_def mapRows_Some bindE_simps o_def
      computeNumericStatsRaw_Some computeCategoricalStatsRaw_Some map_filter_map
      split: coltype.splits)

lemma columnStatRaw_Some_fun:
  "columnStatRaw H ns (map Some data) types = (\<lambda>col. Inr (columnStat H ns data types col))"
  by (rule ext) (rule columnStatRaw_Some)

lemma columnStatRaw_None:
  "None \<in> set rawData \<Longrightarrow> columnStatRaw H ns rawData types col = Inl TypeError"
  by (simp add: columnStatRaw_def Let_def mapRows_None bindE_simps)

lemma categoricalAggregationsRaw_Some:
  "categoricalAggregationsRaw H ns (map Some data) catCols numCols
     = Inr (categoricalAggregations H ns data catCols numCols)"
  unfolding categoricalAggregationsRaw_def categoricalAggregations_def
  by (simp add: mapRows_Some aggregateByGroupRaw_Some bindE_simps sequenceE_Inr if_Inr cong: if_cong)

lemma dateAggregationsRaw_Some:
  "dateAggregationsRaw H ns ck (map Some data) dateCols numCols
     = Inr (dateAggregations H ns ck data dateCols numCols)"
  unfolding dateAggregationsRaw_def dateAggregations_def
  by (simp add: aggregateByGroupRaw_Some bindE_simps sequenceE_Inr)

lemma pairedSamplesRaw_Some:
  "pairedSamplesRaw (map Some data) xCol yCol = Inr (pairedSamples data xCol yCol)"
  by (simp add: pairedSamplesRaw_def pairedSamples_def mapRows_Some bindE_simps map_filter_map)

lemma correlationsRaw_Some:
  "correlationsRaw H (map Some data) numCols = Inr (correlationsOf H data numCols)"
  unfolding correlationsRaw_def correlationsOf_def
  by (simp add: pairedSamplesRaw_Some bindE_simps sequenceE_Inr Let_def if_Inr cong: if_cong)

lemma analyzeDatasetRaw_Some:
  "analyzeDatasetRaw H ns ck (map Some data) cols types
     = Inr (analyzeDataset H ns ck data cols types)"
  by (simp add: analyzeDatasetRaw_def analyzeDataset_def Let_def columnStatRaw_Some_fun sequenceE_Inr
      categoricalAggregationsRaw_Some dateAggregationsRaw_Some correlationsRaw_Some bindE_simps)

lemma analyzeDatasetRaw_no_columns:
  "\<exists>S. analyzeDatasetRaw H ns ck rawData [] types = Inr S"
  by (simp add: analyzeDatasetRaw_def categoricalAggregationsRaw_def dateAggregationsRaw_def
      correlationsRaw_def bindE_simps)

lemma analyzeDatasetRaw_error_iff:
  "analyzeDatasetRaw H ns ck rawData cols types = Inl TypeError
     \<longleftrightarrow> cols \<noteq> [] \<and> None \<in> set rawData"
proof
  assume e: "analyzeDatasetRaw H ns ck rawData cols types = Inl TypeError"
  have c: "cols \<noteq> []"
  proof
    assume "cols = []"
    with e analyzeDatasetRaw_no_columns [of H ns ck rawData types] show False by auto
  qed
  have n: "None \<in> set rawData"
  proof (rule ccontr)
    assume "None \<notin> set rawData"
    then have "map Some (map the rawData) = rawData" by (induction rawData) auto
    with analyzeDatasetRaw_Some [of H ns ck "map the rawData" cols types] e show False by simp
  qed
  from c n show "cols \<noteq> [] \<and> None \<in> set rawData" ..
next
  assume h: "cols \<noteq> [] \<and> None \<in> set rawData"
  then obtain c cs where cols: "cols = c # cs" by (cases cols) auto
  from h have "columnStatRaw H ns rawData types c = Inl TypeError" by (simp add: columnStatRaw_None)
  then show "analyzeDatasetRaw H ns ck rawData cols types = Inl TypeError"
    by (simp add: analyzeDatasetRaw_def Let_def cols bindE_simps)
qed


text \<open>
  Claim C5, as the code has it. \<open>analyzeDataset\<close> returns a summary for all rows that
  are records, whatever their cells hold: on an array of records the function that can
  raise returns the summary of the function that cannot. Its only error is the
  \<open>TypeError\<close> of an array that holds \<open>null\<close> in the place of a row, when there is a
  column to read. The summary has the row count, the column count and one statistics record per column
  passed. For an empty dataset it has no correlations and no aggregation has a row,
  but it has a statistics record for every column passed and the aggregations of these
  columns; it has no columns and no aggregations when no column is passed. A column
  typed as number has no numeric statistics exactly when it has no valid number.
\<close>

theorem analyzeDataset_total:
  assumes S: "S = analyzeDataset H ns ck data cols types"
  shows "analyzeDatasetRaw H ns ck (map Some data) cols types = Inr S
     \<and> (analyzeDatasetRaw H ns ck rawData cols types = Inl TypeError
          \<longleftrightarrow> cols \<noteq> [] \<and> None \<in> set rawData)
     \<and> rowCount S = length data
     \<and> columnCount S = length cols
     \<and> map column (columnStats S) = cols
     \<and> (data = [] \<longrightarrow>
          rowCount S = 0 \<and> correlations S = []
        \<and> (\<forall>a\<in>set (precomputedAggregations S). rows a = [])
        \<and> (\<forall>cs\<in>set (columnStats S). numeric cs = None \<and> uniqueCount cs = 0 \<and> nullCount cs = 0))
     \<and> (cols = [] \<longrightarrow>
          columnCount S = 0 \<and> columnStats S = []
        \<and> precomputedAggregations S = [] \<and> correlations S = [])
     \<and> (\<forall>cs\<in>set (columnStats S). ctype cs = TNumber \<longrightarrow>
          numeric cs = computeNumericStats H data (column cs)
          \<and> (numericValues data (column cs) = [] \<longrightarrow> numeric cs = None)
          \<and> (numeric cs = None \<longrightarrow> numericValues data (column cs) = []))"
proof -
  have R1: "analyzeDatasetRaw H ns ck (map Some data) cols types = Inr S"
    unfolding S by (rule analyzeDatasetRaw_Some)
  have R2: "analyzeDatasetRaw H ns ck rawData cols types = Inl TypeError
          \<longleftrightarrow> cols \<noteq> [] \<and> None \<in> set rawData"
    by (rule analyzeDatasetRaw_error_iff)
  have A1: "rowCount S = length data" and A2: "columnCount S = length cols"
    unfolding S by (simp_all add: analyzeDataset_def Let_def)
  have st: "columnStats S = map (columnStat H ns data types) cols"
    unfolding S by (simp add: analyzeDataset_def Let_def)
  have B: "map column (columnStats S) = cols"
    unfolding st by (simp add: o_def column_columnStat)
  have C: "data = [] \<longrightarrow>
          rowCount S = 0 \<and> correlations S = []
        \<and> (\<forall>a\<in>set (precomputedAggregations S). rows a = [])
        \<and> (\<forall>cs\<in>set (columnStats S). numeric cs = None \<and> uniqueCount cs = 0 \<and> nullCount cs = 0)"
  proof
    assume e: "data = []"
    have z: "rowCount S = 0" using A1 e by simp
    have c: "correlations S = []"
      unfolding S e by (simp add: analyzeDataset_def Let_def correlationsOf_Nil)
    have r: "\<forall>a\<in>set (precomputedAggregations S). rows a = []"
    proof
      fix a assume "a \<in> set (precomputedAggregations S)"
      then consider
          "a \<in> set (categoricalAggregations H ns [] (categoricalColumns S) (numericColumns S))"
        | "a \<in> set (dateAggregations H ns ck [] (dateColumns S) (numericColumns S))"
        unfolding S e by (auto simp: analyzeDataset_def Let_def)
      then show "rows a = []"
      proof cases
        case 1
        then show ?thesis using in_categoricalAggregations [OF 1] by (auto simp: aggregateByGroup_Nil)
      next
        case 2
        then show ?thesis using in_dateAggregations [OF 2] by (simp add: aggregateByGroup_Nil)
      qed
    qed
    have n: "\<forall>cs\<in>set (columnStats S). numeric cs = None \<and> uniqueCount cs = 0 \<and> nullCount cs = 0"
      unfolding st e
      by (auto simp: columnStat_def Let_def computeNumericStats_def numericValues_def
          numericStatsOf_def List.map_filter_simps split: coltype.splits option.splits)
    show "rowCount S = 0 \<and> correlations S = []
        \<and> (\<forall>a\<in>set (precomputedAggregations S). rows a = [])
        \<and> (\<forall>cs\<in>set (columnStats S). numeric cs = None \<and> uniqueCount cs = 0 \<and> nullCount cs = 0)"
      by (intro conjI z c r n)
  qed
  have D: "cols = [] \<longrightarrow>
          columnCount S = 0 \<and> columnStats S = []
        \<and> precomputedAggregations S = [] \<and> correlations S = []"
    unfolding S
    by (simp add: analyzeDataset_def Let_def correlationsOf_def categoricalAggregations_def
        dateAggregations_def)
  have E: "\<forall>cs\<in>set (columnStats S). ctype cs = TNumber \<longrightarrow>
          numeric cs = computeNumericStats H data (column cs)
          \<and> (numericValues data (column cs) = [] \<longrightarrow> numeric cs = None)
          \<and> (numeric cs = None \<longrightarrow> numericValues data (column cs) = [])"
    unfolding st
    by (auto simp: column_columnStat numeric_columnStat computeNumericStats_None)
  show ?thesis by (intro conjI R1 R2 A1 A2 B C D E)
qed


theorem analyzeDataset_total_witness:
  "analyzeDatasetRaw exactHost noNumberText id (map Some blankRows) [''n''] blankTypes
     = Inr (analyzeDataset exactHost noNumberText id blankRows [''n''] blankTypes)
   \<and> [''n''] \<noteq> [] \<and> None \<in> set [Some [(''n'', JNumber NaN)], None]
   \<and> analyzeDatasetRaw exactHost noNumberText id [Some [(''n'', JNumber NaN)], None] [''n''] blankTypes
       = Inl TypeError
   \<and> correlations (analyzeDataset exactHost noNumberText id [] [''region'', ''revenue''] regionTypes) = []
   \<and> columnStats (analyzeDataset exactHost noNumberText id [] [] Map.empty) = []
   \<and> precomputedAggregations (analyzeDataset exactHost noNumberText id [] [] Map.empty) = []
   \<and> blankStat \<in> set (columnStats (analyzeDataset exactHost noNumberText id blankRows [''n''] blankTypes))
   \<and> ctype blankStat = TNumber
   \<and> numericValues blankRows (column blankStat) = []
   \<and> numeric blankStat = None"
proof -
  have ok: "analyzeDatasetRaw exactHost noNumberText id (map Some blankRows) [''n''] blankTypes
     = Inr (analyzeDataset exactHost noNumberText id blankRows [''n''] blankTypes)"
    using analyzeDataset_total [OF refl, where rawData = "[]"
        and H = exactHost and ns = noNumberText and ck = id and cols = "[''n'']" and types = blankTypes
        and data = blankRows]
    by blast
  have n: "[''n''] \<noteq> [] \<and> None \<in> set [Some [(''n'', JNumber NaN)], None]" by simp
  have bad: "analyzeDatasetRaw exactHost noNumberText id [Some [(''n'', JNumber NaN)], None] [''n''] blankTypes
       = Inl TypeError"
    using analyzeDataset_total [OF refl, where rawData = "[Some [(''n'', JNumber NaN)], None]"
        and H = exactHost and ns = noNumberText and ck = id and cols = "[''n'']" and types = blankTypes
        and data = "[]"] n by blast
  have c: "correlations (analyzeDataset exactHost noNumberText id [] [''region'', ''revenue''] regionTypes) = []"
    using analyzeDataset_total [OF refl, where rawData = "[]"
        and H = exactHost and ns = noNumberText and ck = id and cols = "[''region'', ''revenue'']"
        and types = regionTypes and data = "[]"] by blast
  have z: "columnStats (analyzeDataset exactHost noNumberText id [] [] Map.empty) = []
      \<and> precomputedAggregations (analyzeDataset exactHost noNumberText id [] [] Map.empty) = []"
    using analyzeDataset_total [OF refl, where rawData = "[]"
        and H = exactHost and ns = noNumberText and ck = id and cols = "[]"
        and types = Map.empty and data = "[]"]
    by blast
  have m: "blankStat \<in> set (columnStats (analyzeDataset exactHost noNumberText id blankRows [''n''] blankTypes))"
    by (simp add: analyzeDataset_def columnStat_def blankRows_def blankTypes_def blankStat_def Let_def
        field_def computeNumericStats_def numericValues_def numericStatsOf_def List.map_filter_simps)
  have t: "ctype blankStat = TNumber" by (simp add: blankStat_def)
  have v: "numericValues blankRows (column blankStat) = []"
    by (simp add: blankStat_def blankRows_def numericValues_def field_def List.map_filter_simps)
  have u: "numeric blankStat = None"
    using analyzeDataset_total [OF refl, where rawData = "[]"
        and H = exactHost and ns = noNumberText and ck = id and cols = "[''n'']"
        and types = blankTypes and data = blankRows]
      m t v by blast
  show ?thesis using ok n bad c z m t v u by blast
qed


text \<open>
  Claim C5 as stated fails for an empty dataset: the summary has as many columns as the
  caller passes. With no rows and the columns \<open>region\<close>, a string column, and
  \<open>revenue\<close>, a number column, it has two columns, two statistics records and two
  aggregations (without rows).
\<close>

theorem analyzeDataset_empty_counterexample:
  "columnCount (analyzeDataset exactHost noNumberText id [] [''region'', ''revenue''] regionTypes) = 2
   \<and> map column
       (columnStats (analyzeDataset exactHost noNumberText id [] [''region'', ''revenue''] regionTypes))
       = [''region'', ''revenue'']
   \<and> precomputedAggregations
       (analyzeDataset exactHost noNumberText id [] [''region'', ''revenue''] regionTypes)
       = [\<lparr> description = ''Total revenue by region'', groupBy = ''region'', metric = ''revenue'',
            operation = ''sum'', rows = [] \<rparr>,
          \<lparr> description = ''Average revenue by region'', groupBy = ''region'', metric = ''revenue'',
            operation = ''mean'', rows = [] \<rparr>]"
  by (simp add: analyzeDataset_def regionTypes_def Let_def columnStat_def
      categoricalAggregations_def dateAggregations_def aggregateByGroup_def sortRowsDesc_def)

section \<open>Properties: matching a query\<close>

lemma foldl_wordScore:
  "foldl (wordScore d g m) s ws
     = s + sum_list (map (wordPoints d g m) (filter (\<lambda>word. 3 \<le> length word) ws))"
  by (induction ws arbitrary: s) (auto simp: wordScore_def wordPoints_def Let_def)

lemma aggregationScore_relevanceScore:
  "aggregationScore lower space q agg = relevanceScore lower space q agg"
  by (simp add: aggregationScore_def relevanceScore_def Let_def foldl_wordScore)

lemma bestStep_pair:
  "bestStep lower space q (s, r) x
     = (if s < aggregationScore lower space q x then (aggregationScore lower space q x, Some x)
        else (s, r))"
  by (simp add: bestStep_def Let_def)

lemma foldl_bestStep:
  assumes "foldl (bestStep lower space q) (s, r) xs = (s', r')"
  shows "s \<le> s' \<and> (\<forall>x\<in>set xs. aggregationScore lower space q x \<le> s')
     \<and> (s' = s \<and> r' = r
        \<or> s < s' \<and> (\<exists>i<length xs. r' = Some (xs ! i) \<and> aggregationScore lower space q (xs ! i) = s'
                          \<and> (\<forall>j<i. aggregationScore lower space q (xs ! j) < s')))"
  using assms
proof (induction xs arbitrary: s r)
  case Nil
  then show ?case by simp
next
  case (Cons x xs)
  let ?f = "aggregationScore lower space q"
  show ?case
  proof (cases "s < ?f x")
    case True
    then have "foldl (bestStep lower space q) (?f x, Some x) xs = (s', r')"
      using Cons.prems by (simp add: bestStep_pair)
    from Cons.IH [OF this]
    have a: "?f x \<le> s'" and b: "\<forall>y\<in>set xs. ?f y \<le> s'"
      and c: "s' = ?f x \<and> r' = Some x
        \<or> ?f x < s' \<and> (\<exists>i<length xs. r' = Some (xs ! i) \<and> ?f (xs ! i) = s' \<and> (\<forall>j<i. ?f (xs ! j) < s'))"
      by auto
    from c have "\<exists>i<length (x # xs). r' = Some ((x # xs) ! i) \<and> ?f ((x # xs) ! i) = s'
                          \<and> (\<forall>j<i. ?f ((x # xs) ! j) < s')"
    proof
      assume "s' = ?f x \<and> r' = Some x"
      then show ?thesis by (intro exI [of _ 0]) simp
    next
      assume "?f x < s' \<and> (\<exists>i<length xs. r' = Some (xs ! i) \<and> ?f (xs ! i) = s' \<and> (\<forall>j<i. ?f (xs ! j) < s'))"
      then obtain i where i: "i < length xs" "r' = Some (xs ! i)" "?f (xs ! i) = s'"
        "\<forall>j<i. ?f (xs ! j) < s'" and lt: "?f x < s'" by blast
      have "\<forall>j<Suc i. ?f ((x # xs) ! j) < s'"
        using i(4) lt by (auto simp: nth_Cons split: nat.splits)
      then show ?thesis using i by (intro exI [of _ "Suc i"]) simp
    qed
    then show ?thesis using True a b by auto
  next
    case False
    then have "foldl (bestStep lower space q) (s, r) xs = (s', r')"
      using Cons.prems by (simp add: bestStep_pair)
    from Cons.IH [OF this]
    have a: "s \<le> s'" and b: "\<forall>y\<in>set xs. ?f y \<le> s'"
      and c: "s' = s \<and> r' = r
        \<or> s < s' \<and> (\<exists>i<length xs. r' = Some (xs ! i) \<and> ?f (xs ! i) = s' \<and> (\<forall>j<i. ?f (xs ! j) < s'))"
      by auto
    from c show ?thesis
    proof
      assume "s' = s \<and> r' = r"
      then show ?thesis using False a b by auto
    next
      assume "s < s' \<and> (\<exists>i<length xs. r' = Some (xs ! i) \<and> ?f (xs ! i) = s' \<and> (\<forall>j<i. ?f (xs ! j) < s'))"
      then obtain i where i: "i < length xs" "r' = Some (xs ! i)" "?f (xs ! i) = s'"
        "\<forall>j<i. ?f (xs ! j) < s'" and lt: "s < s'" by blast
      have "\<forall>j<Suc i. ?f ((x # xs) ! j) < s'"
        using i(4) lt False by (auto simp: nth_Cons split: nat.splits)
      then have "\<exists>i<length (x # xs). r' = Some ((x # xs) ! i) \<and> ?f ((x # xs) ! i) = s'
                          \<and> (\<forall>j<i. ?f ((x # xs) ! j) < s')"
        using i by (intro exI [of _ "Suc i"]) simp
      then show ?thesis using False a b lt by auto
    qed
  qed
qed

lemma findRelevantAggregation_first_best:
  assumes i: "i < length (precomputedAggregations summary)"
    and three: "3 \<le> relevanceScore lower space (lower query) (precomputedAggregations summary ! i)"
    and best: "\<forall>a\<in>set (precomputedAggregations summary).
        relevanceScore lower space (lower query) a
          \<le> relevanceScore lower space (lower query) (precomputedAggregations summary ! i)"
    and first: "\<forall>j<i. relevanceScore lower space (lower query) (precomputedAggregations summary ! j)
          < relevanceScore lower space (lower query) (precomputedAggregations summary ! i)"
  shows "findRelevantAggregation lower space summary query = Some (precomputedAggregations summary ! i)"
proof -
  let ?q = "lower query"
  let ?xs = "precomputedAggregations summary"
  let ?f = "relevanceScore lower space ?q"
  obtain s' r' where fold: "foldl (bestStep lower space ?q) (0, None) ?xs = (s', r')" by force
  note F = foldl_bestStep [OF fold, unfolded aggregationScore_relevanceScore]
  from F have le: "\<forall>x\<in>set ?xs. ?f x \<le> s'" by blast
  have mem: "?xs ! i \<in> set ?xs" using i by simp
  with le have "?f (?xs ! i) \<le> s'" by blast
  with three have pos: "0 < s'" and s3: "3 \<le> s'" by simp_all
  with F obtain k where k: "k < length ?xs" "r' = Some (?xs ! k)" "?f (?xs ! k) = s'"
    "\<forall>j<k. ?f (?xs ! j) < s'" by auto
  have "?xs ! k \<in> set ?xs" using k(1) by simp
  with best have "?f (?xs ! k) \<le> ?f (?xs ! i)" by blast
  with \<open>?f (?xs ! i) \<le> s'\<close> k(3) have eq: "?f (?xs ! i) = s'" by simp
  have "k = i"
  proof (rule ccontr)
    assume "k \<noteq> i"
    then consider "k < i" | "i < k" by linarith
    then show False
    proof cases
      case 1
      with first have "?f (?xs ! k) < ?f (?xs ! i)" by blast
      with k(3) eq show False by simp
    next
      case 2
      with k(4) have "?f (?xs ! i) < s'" by blast
      with eq show False by simp
    qed
  qed
  with k(2) s3 show ?thesis
    by (simp add: findRelevantAggregation_def Let_def fold)
qed

lemma relevanceScore_ge:
  "(if stringIncludes q (lower (groupBy agg)) then 3 else 0)
   + (if stringIncludes q (lower (metric agg)) then 3 else 0)
   + (if (stringIncludes q ''total'' \<or> stringIncludes q ''sum'') \<and> operation agg = ''sum''
      then 2 else 0)
   \<le> relevanceScore lower space q agg"
  unfolding relevanceScore_def by linarith

lemma region_query_score:
  assumes "groupBy a = ''region''" "metric a = ''revenue''" "operation a = ''sum''"
    and l: "lower ''region'' = ''region''" "lower ''revenue'' = ''revenue''"
  shows "8 \<le> relevanceScore lower space ''total revenue by region'' a"
proof -
  have g: "stringIncludes ''total revenue by region'' ''region''"
    by (simp add: stringIncludes_def sublist_code)
  have m: "stringIncludes ''total revenue by region'' ''revenue''"
    by (simp add: stringIncludes_def sublist_code)
  have t: "stringIncludes ''total revenue by region'' ''total''"
    by (simp add: stringIncludes_def sublist_code)
  show ?thesis
    using relevanceScore_ge [of "''total revenue by region''" lower a space]
    by (simp only: assms l g m t if_True simp_thms)
qed

lemma asciiLower_region_query:
  "asciiLower ''total revenue by region'' = ''total revenue by region''"
  "asciiLower ''region'' = ''region''" "asciiLower ''revenue'' = ''revenue''"
  by (simp_all add: asciiLower_def asciiLowerChar_def)

lemma regionSummary_aggregations:
  "precomputedAggregations regionSummary =
     [regionRevenueSum,
      \<lparr> description = ''Average revenue by region'', groupBy = ''region'', metric = ''revenue'',
        operation = ''mean'',
        rows = [[(''region'', JString ''East''), (''revenue'', JNumber (Num 150))],
                [(''region'', JString ''West''), (''revenue'', JNumber (Num 50))]] \<rparr>]"
  by (simp add: regionSummary_def analyzeDataset_def regionRows_def regionTypes_def regionRevenueSum_def
      Let_def categoricalAggregations_def dateAggregations_def aggregateByGroup_def groupStep_def
      field_def reduceGroup_def reduceSum_def groupRow_def numberAt_def sortRowsDesc_def
      exactHost_ops round2_exactHost)


text \<open>
  Claim C3, as the code has it. The score \<open>findRelevantAggregation\<close> gives an
  aggregation is the score of the specification, with the host's \<open>toLowerCase\<close> and
  white space. It returns nothing exactly when every aggregation scores below 3; what
  it returns scores at least 3, no aggregation scores higher, and every aggregation
  before it in the list scores strictly lower; and the first aggregation of the highest
  score is returned when that score is at least 3. For the query "total revenue by
  region", which \<open>toLowerCase\<close> leaves as it is, an aggregation of revenue by region
  with operation sum scores at least 3 + 3 + 2, so that a list that holds it gives a
  match; the match is that aggregation when it stands first among the aggregations of
  the highest score, as it does in the list that holds just it.
\<close>

theorem findRelevantAggregation_best_match:
  "aggregationScore lower space q agg = relevanceScore lower space q agg
   \<and> (findRelevantAggregation lower space summary query = None
        \<longleftrightarrow> (\<forall>a\<in>set (precomputedAggregations summary).
               relevanceScore lower space (lower query) a < 3))
   \<and> (findRelevantAggregation lower space summary query = Some best \<longrightarrow>
          3 \<le> relevanceScore lower space (lower query) best
        \<and> (\<forall>a\<in>set (precomputedAggregations summary).
              relevanceScore lower space (lower query) a \<le> relevanceScore lower space (lower query) best)
        \<and> (\<exists>i<length (precomputedAggregations summary).
              precomputedAggregations summary ! i = best
            \<and> (\<forall>j<i. relevanceScore lower space (lower query) (precomputedAggregations summary ! j)
                        < relevanceScore lower space (lower query) best)))
   \<and> (i < length (precomputedAggregations summary)
        \<and> 3 \<le> relevanceScore lower space (lower query) (precomputedAggregations summary ! i)
        \<and> (\<forall>a\<in>set (precomputedAggregations summary).
              relevanceScore lower space (lower query) a
                \<le> relevanceScore lower space (lower query) (precomputedAggregations summary ! i))
        \<and> (\<forall>j<i. relevanceScore lower space (lower query) (precomputedAggregations summary ! j)
                    < relevanceScore lower space (lower query) (precomputedAggregations summary ! i))
        \<longrightarrow> findRelevantAggregation lower space summary query
              = Some (precomputedAggregations summary ! i))
   \<and> (lower ''total revenue by region'' = ''total revenue by region''
        \<and> lower ''region'' = ''region'' \<and> lower ''revenue'' = ''revenue''
        \<and> groupBy a = ''region'' \<and> metric a = ''revenue'' \<and> operation a = ''sum'' \<longrightarrow>
          8 \<le> relevanceScore lower space ''total revenue by region'' a
        \<and> findRelevantAggregation lower space (summary \<lparr> precomputedAggregations := [a] \<rparr>)
              ''total revenue by region'' = Some a
        \<and> (a \<in> set (precomputedAggregations summary) \<longrightarrow>
              findRelevantAggregation lower space summary ''total revenue by region'' \<noteq> None))"
proof -
  let ?q = "lower query"
  let ?xs = "precomputedAggregations summary"
  let ?f = "relevanceScore lower space"
  obtain s' r' where fold: "foldl (bestStep lower space ?q) (0, None) ?xs = (s', r')" by force
  have res: "findRelevantAggregation lower space summary query = (if 3 \<le> s' then r' else None)"
    by (simp add: findRelevantAggregation_def Let_def fold)
  note F = foldl_bestStep [OF fold, unfolded aggregationScore_relevanceScore]
  from F have le: "\<forall>x\<in>set ?xs. ?f ?q x \<le> s'" by blast
  from F have alt: "s' = 0 \<and> r' = None
        \<or> 0 < s' \<and> (\<exists>i<length ?xs. r' = Some (?xs ! i) \<and> ?f ?q (?xs ! i) = s'
                          \<and> (\<forall>j<i. ?f ?q (?xs ! j) < s'))" by blast
  have A: "aggregationScore lower space q agg = ?f q agg" by (rule aggregationScore_relevanceScore)
  have B: "findRelevantAggregation lower space summary query = None
        \<longleftrightarrow> (\<forall>a\<in>set ?xs. ?f ?q a < 3)"
  proof
    assume n: "findRelevantAggregation lower space summary query = None"
    have "s' < 3"
    proof (rule ccontr)
      assume "\<not> s' < 3"
      then have "3 \<le> s'" by simp
      with n res have "r' = None" by simp
      with alt \<open>3 \<le> s'\<close> show False by auto
    qed
    with le show "\<forall>a\<in>set ?xs. ?f ?q a < 3" by auto
  next
    assume a: "\<forall>a\<in>set ?xs. ?f ?q a < 3"
    have "s' < 3"
    proof (rule ccontr)
      assume "\<not> s' < 3"
      then have "3 \<le> s'" by simp
      with alt obtain i where "i < length ?xs" "?f ?q (?xs ! i) = s'" by auto
      with a \<open>3 \<le> s'\<close> show False by (metis nth_mem not_less)
    qed
    with res show "findRelevantAggregation lower space summary query = None" by simp
  qed
  have C: "findRelevantAggregation lower space summary query = Some best \<longrightarrow>
          3 \<le> ?f ?q best
        \<and> (\<forall>a\<in>set ?xs. ?f ?q a \<le> ?f ?q best)
        \<and> (\<exists>i<length ?xs. ?xs ! i = best \<and> (\<forall>j<i. ?f ?q (?xs ! j) < ?f ?q best))"
  proof
    assume b: "findRelevantAggregation lower space summary query = Some best"
    with res have s3: "3 \<le> s'" and r: "r' = Some best" by (auto split: if_splits)
    with alt obtain i where i: "i < length ?xs" "Some best = Some (?xs ! i)"
      "?f ?q (?xs ! i) = s'" "\<forall>j<i. ?f ?q (?xs ! j) < s'" by auto
    then have sb: "?f ?q best = s'" by simp
    show "3 \<le> ?f ?q best
        \<and> (\<forall>a\<in>set ?xs. ?f ?q a \<le> ?f ?q best)
        \<and> (\<exists>i<length ?xs. ?xs ! i = best \<and> (\<forall>j<i. ?f ?q (?xs ! j) < ?f ?q best))"
      unfolding sb using s3 le i by auto
  qed
  have C': "i < length ?xs \<and> 3 \<le> ?f ?q (?xs ! i)
        \<and> (\<forall>a\<in>set ?xs. ?f ?q a \<le> ?f ?q (?xs ! i))
        \<and> (\<forall>j<i. ?f ?q (?xs ! j) < ?f ?q (?xs ! i))
        \<longrightarrow> findRelevantAggregation lower space summary query = Some (?xs ! i)"
    using findRelevantAggregation_first_best by blast
  have D: "lower ''total revenue by region'' = ''total revenue by region''
        \<and> lower ''region'' = ''region'' \<and> lower ''revenue'' = ''revenue''
        \<and> groupBy a = ''region'' \<and> metric a = ''revenue'' \<and> operation a = ''sum'' \<longrightarrow>
          8 \<le> ?f ''total revenue by region'' a
        \<and> findRelevantAggregation lower space (summary \<lparr> precomputedAggregations := [a] \<rparr>)
              ''total revenue by region'' = Some a
        \<and> (a \<in> set ?xs \<longrightarrow>
              findRelevantAggregation lower space summary ''total revenue by region'' \<noteq> None)"
  proof
    assume h: "lower ''total revenue by region'' = ''total revenue by region''
        \<and> lower ''region'' = ''region'' \<and> lower ''revenue'' = ''revenue''
        \<and> groupBy a = ''region'' \<and> metric a = ''revenue'' \<and> operation a = ''sum''"
    then have lq: "lower ''total revenue by region'' = ''total revenue by region''" by simp
    from h have s8: "8 \<le> ?f ''total revenue by region'' a"
      using region_query_score by blast
    have one: "findRelevantAggregation lower space (summary \<lparr> precomputedAggregations := [a] \<rparr>)
              ''total revenue by region'' = Some a"
      using s8 by (simp add: findRelevantAggregation_def Let_def lq bestStep_pair
          aggregationScore_relevanceScore)
    have many: "a \<in> set ?xs \<longrightarrow>
              findRelevantAggregation lower space summary ''total revenue by region'' \<noteq> None"
    proof
      assume m: "a \<in> set ?xs"
      let ?p = "''total revenue by region''"
      obtain t' u' where f2: "foldl (bestStep lower space ?p) (0, None) ?xs = (t', u')" by force
      note G = foldl_bestStep [OF f2, unfolded aggregationScore_relevanceScore]
      from G m have "?f ?p a \<le> t'" by blast
      with s8 have t8: "8 \<le> t'" by simp
      with G have "u' \<noteq> None" by auto
      with t8 show "findRelevantAggregation lower space summary ?p \<noteq> None"
        by (simp add: findRelevantAggregation_def Let_def lq f2)
    qed
    from s8 one many show "8 \<le> ?f ''total revenue by region'' a
        \<and> findRelevantAggregation lower space (summary \<lparr> precomputedAggregations := [a] \<rparr>)
              ''total revenue by region'' = Some a
        \<and> (a \<in> set ?xs \<longrightarrow>
              findRelevantAggregation lower space summary ''total revenue by region'' \<noteq> None)"
      by blast
  qed
  show ?thesis by (intro conjI A B C C' D)
qed


theorem findRelevantAggregation_best_match_witness:
  "findRelevantAggregation asciiLower asciiSpace regionSummary ''Total revenue by region''
     = Some regionRevenueSum
   \<and> 3 \<le> relevanceScore asciiLower asciiSpace (asciiLower ''Total revenue by region'') regionRevenueSum
   \<and> asciiLower ''total revenue by region'' = ''total revenue by region''
   \<and> asciiLower ''region'' = ''region'' \<and> asciiLower ''revenue'' = ''revenue''
   \<and> groupBy regionRevenueSum = ''region'' \<and> metric regionRevenueSum = ''revenue''
   \<and> operation regionRevenueSum = ''sum''
   \<and> regionRevenueSum \<in> set (precomputedAggregations regionSummary)
   \<and> findRelevantAggregation asciiLower asciiSpace regionSummary ''total revenue by region'' \<noteq> None
   \<and> 8 \<le> relevanceScore asciiLower asciiSpace ''total revenue by region'' regionRevenueSum"
proof -
  have e: "findRelevantAggregation asciiLower asciiSpace regionSummary ''Total revenue by region''
      = Some regionRevenueSum"
    unfolding findRelevantAggregation_def regionSummary_aggregations
    by (simp add: bestStep_pair aggregationScore_relevanceScore relevanceScore_def regionRevenueSum_def
        asciiLower_def asciiLowerChar_def asciiSpace_def wordPoints_def stringIncludes_def sublist_code)
  have f: "groupBy regionRevenueSum = ''region'' \<and> metric regionRevenueSum = ''revenue''
     \<and> operation regionRevenueSum = ''sum''"
    by (simp add: regionRevenueSum_def)
  have m: "regionRevenueSum \<in> set (precomputedAggregations regionSummary)"
    by (simp add: regionSummary_aggregations)
  show ?thesis
    using findRelevantAggregation_best_match [where lower = asciiLower and space = asciiSpace
        and summary = regionSummary and query = "''Total revenue by region''"
        and best = regionRevenueSum and a = regionRevenueSum]
      e f m asciiLower_region_query
    by blast
qed


text \<open>
  Claim C3 as stated fails in its example: a bank that holds the aggregation of revenue
  by region with operation sum need not return it. In the bank of the average,
  described "Average revenue by region", followed by the sum, described "Sales", both
  score 12 for the query "total revenue by region", and the average, standing first, is
  returned.
\<close>

theorem findRelevantAggregation_tie_counterexample:
  "findRelevantAggregation asciiLower asciiSpace salesSummary ''total revenue by region''
     = Some averageRevenue
   \<and> precomputedAggregations salesSummary = [averageRevenue, salesRevenue]
   \<and> groupBy salesRevenue = ''region'' \<and> metric salesRevenue = ''revenue''
   \<and> operation salesRevenue = ''sum''
   \<and> operation averageRevenue = ''mean''
   \<and> relevanceScore asciiLower asciiSpace ''total revenue by region'' averageRevenue = 12
   \<and> relevanceScore asciiLower asciiSpace ''total revenue by region'' salesRevenue = 12"
proof -
  have a: "relevanceScore asciiLower asciiSpace ''total revenue by region'' averageRevenue = 12"
    by (simp add: relevanceScore_def averageRevenue_def
        asciiLower_def asciiLowerChar_def asciiSpace_def wordPoints_def stringIncludes_def sublist_code)
  have s: "relevanceScore asciiLower asciiSpace ''total revenue by region'' salesRevenue = 12"
    by (simp add: relevanceScore_def salesRevenue_def
        asciiLower_def asciiLowerChar_def asciiSpace_def wordPoints_def stringIncludes_def sublist_code)
  have r: "findRelevantAggregation asciiLower asciiSpace salesSummary ''total revenue by region''
     = Some averageRevenue"
    by (simp add: findRelevantAggregation_def salesSummary_def bestStep_pair
        aggregationScore_relevanceScore asciiLower_region_query a s)
  show ?thesis using a s r by (simp add: salesSummary_def salesRevenue_def averageRevenue_def)
qed

section \<open>Properties: Pearson correlation\<close>




























end
